theory Spec2Isabelle
  imports Complex_Main
begin

section \<open>Market price prediction: data model\<close>

text \<open>
  Embedding of \<^verbatim>\<open>Backend/market_price_prediction.py\<close> (class
  \<^verbatim>\<open>MarketPricePredictor\<close>). Prices are finite floats, read as reals.
  Where the source can produce a non-finite float (the mean of an empty
  series, a division by a zero price, the shifted and rolling columns of the
  training table) the value is a \<open>pyfloat\<close>. Signed zeros are not told apart.
\<close>

datatype pyfloat = Fin real | PInf | NInf | NaN

text \<open>\<^verbatim>\<open>x > c\<close> and \<^verbatim>\<open>x < c\<close> on floats: every comparison with NaN is false.\<close>

fun fgt :: "pyfloat \<Rightarrow> pyfloat \<Rightarrow> bool" where
  "fgt NaN _ = False"
| "fgt _ NaN = False"
| "fgt (Fin a) (Fin b) = (a > b)"
| "fgt PInf PInf = False"
| "fgt PInf _ = True"
| "fgt _ PInf = False"
| "fgt NInf _ = False"
| "fgt (Fin a) NInf = True"

fun flt :: "pyfloat \<Rightarrow> pyfloat \<Rightarrow> bool" where
  "flt a b = fgt b a"

text \<open>\<^verbatim>\<open>x - m\<close> and \<^verbatim>\<open>x / s\<close> for a float \<open>x\<close> and finite \<open>m\<close>, \<open>s\<close>
  (numpy arithmetic: dividing by zero gives an infinity or NaN, never an exception).\<close>

fun fsub_real :: "pyfloat \<Rightarrow> real \<Rightarrow> pyfloat" where
  "fsub_real (Fin a) m = Fin (a - m)"
| "fsub_real PInf m = PInf"
| "fsub_real NInf m = NInf"
| "fsub_real NaN m = NaN"

fun fdiv_real :: "pyfloat \<Rightarrow> real \<Rightarrow> pyfloat" where
  "fdiv_real (Fin a) s =
     (if s = 0 then (if a > 0 then PInf else if a < 0 then NInf else NaN)
      else Fin (a / s))"
| "fdiv_real PInf s = (if s < 0 then NInf else PInf)"
| "fdiv_real NInf s = (if s < 0 then PInf else NInf)"
| "fdiv_real NaN s = NaN"

text \<open>pandas \<^verbatim>\<open>Series.mean()\<close>: NaN on an empty series.\<close>

definition mean :: "real list \<Rightarrow> real" where
  "mean xs = sum_list xs / real (length xs)"

definition series_mean :: "real list \<Rightarrow> pyfloat" where
  "series_mean xs = (if xs = [] then NaN else Fin (mean xs))"

text \<open>pandas \<^verbatim>\<open>Series.std()\<close> (sample standard deviation, \<open>ddof = 1\<close>):
  NaN with fewer than two values.\<close>

definition series_std :: "real list \<Rightarrow> pyfloat" where
  "series_std xs =
     (if length xs < 2 then NaN
      else Fin (sqrt (sum_list (map (\<lambda>x. (x - mean xs)\<^sup>2) xs) / real (length xs - 1))))"

text \<open>\<^verbatim>\<open>.tail(n)\<close>: the last \<open>n\<close> rows, all of them when there are fewer.\<close>

definition tail :: "nat \<Rightarrow> 'a list \<Rightarrow> 'a list" where
  "tail n xs = drop (length xs - n) xs"

text \<open>\<^verbatim>\<open>round(x, 2)\<close>: the real number rounded to two decimals, halves to the even
  neighbour. The rounding error of the float arithmetic by which numpy does this
  (multiply, round, divide) is not represented, so the value can differ from the
  source's in the last decimal for an input next to a half.\<close>

definition py_round2 :: "real \<Rightarrow> real" where
  "py_round2 x =
     (let f = \<lfloor>x * 100\<rfloor>; r = x * 100 - of_int f
      in (if r < 1 / 2 then of_int f
          else if r > 1 / 2 then of_int (f + 1)
          else if even f then of_int f else of_int (f + 1)) / 100)"

subsection \<open>Errors\<close>

text \<open>
  \<open>ModelUnavailable\<close> is the \<^verbatim>\<open>ValueError("No model available for ...")\<close> of
  \<^verbatim>\<open>predict_price\<close>; \<open>KeyError\<close> a missing dictionary key; \<open>ValueError\<close>
  what the scaler and the regressors raise on an input they refuse;
  \<open>OverflowError\<close> a date outside \<^verbatim>\<open>datetime\<close>'s range.
\<close>

datatype error = ModelUnavailable | KeyError | ValueError | OverflowError

definition bind_err :: "error + 'a \<Rightarrow> ('a \<Rightarrow> error + 'b) \<Rightarrow> error + 'b" where
  "bind_err m f = (case m of Inl e \<Rightarrow> Inl e | Inr x \<Rightarrow> f x)"

fun map_err :: "('a \<Rightarrow> error + 'b) \<Rightarrow> 'a list \<Rightarrow> error + 'b list" where
  "map_err f [] = Inr []"
| "map_err f (x # xs) =
     (case f x of Inl e \<Rightarrow> Inl e
      | Inr y \<Rightarrow> (case map_err f xs of Inl e \<Rightarrow> Inl e | Inr ys \<Rightarrow> Inr (y # ys)))"

definition lookup :: "('k \<rightharpoonup> 'v) \<Rightarrow> 'k \<Rightarrow> error + 'v" where
  "lookup m k = (case m k of None \<Rightarrow> Inl KeyError | Some v \<Rightarrow> Inr v)"

subsection \<open>Dates\<close>

text \<open>
  A \<^verbatim>\<open>datetime\<close> is its proleptic Gregorian ordinal (\<^verbatim>\<open>toordinal()\<close>, day 1 is
  0001-01-01) and the microseconds since midnight. The calendar fields are computed
  from the ordinal the way the standard library does.
\<close>

record datetime =
  ordinal :: int
  tod :: nat

definition max_ordinal :: int where
  "max_ordinal = 3652059"

text \<open>\<^verbatim>\<open>dt + timedelta(days=k)\<close>.\<close>

definition add_days :: "datetime \<Rightarrow> int \<Rightarrow> error + datetime" where
  "add_days dt k =
     (if 1 \<le> ordinal dt + k \<and> ordinal dt + k \<le> max_ordinal
      then Inr (dt\<lparr>ordinal := ordinal dt + k\<rparr>) else Inl OverflowError)"

definition is_leap :: "int \<Rightarrow> bool" where
  "is_leap y = (y mod 4 = 0 \<and> (y mod 100 \<noteq> 0 \<or> y mod 400 = 0))"

definition days_before_month_tab :: "int list" where
  "days_before_month_tab = [0, 0, 31, 59, 90, 120, 151, 181, 212, 243, 273, 304, 334]"

definition days_in_month_tab :: "int list" where
  "days_in_month_tab = [0, 31, 28, 31, 30, 31, 30, 31, 31, 30, 31, 30, 31]"

definition ord2ymd :: "int \<Rightarrow> int \<times> int \<times> int" where
  "ord2ymd n0 =
     (let n = n0 - 1;
          n400 = n div 146097; n = n mod 146097;
          n100 = n div 36524; n = n mod 36524;
          n4 = n div 1461; n = n mod 1461;
          n1 = n div 365; n = n mod 365;
          y = n400 * 400 + 1 + n100 * 100 + n4 * 4 + n1
      in if n1 = 4 \<or> n100 = 4 then (y - 1, 12, 31)
         else
           (let leapyear = (n1 = 3 \<and> (n4 \<noteq> 24 \<or> n100 = 3));
                m = (n + 50) div 32;
                preceding = days_before_month_tab ! nat m
                            + (if m > 2 \<and> leapyear then 1 else 0)
            in if preceding > n
               then (let m' = m - 1;
                         preceding' = preceding
                           - (days_in_month_tab ! nat m' + (if m' = 2 \<and> leapyear then 1 else 0))
                     in (y, m', n - preceding' + 1))
               else (y, m, n - preceding + 1)))"

definition dt_year :: "datetime \<Rightarrow> int" where
  "dt_year d = fst (ord2ymd (ordinal d))"

definition dt_month :: "datetime \<Rightarrow> int" where
  "dt_month d = fst (snd (ord2ymd (ordinal d)))"

definition dt_day :: "datetime \<Rightarrow> int" where
  "dt_day d = snd (snd (ord2ymd (ordinal d)))"

definition dt_dayofyear :: "datetime \<Rightarrow> int" where
  "dt_dayofyear d =
     days_before_month_tab ! nat (dt_month d)
     + (if dt_month d > 2 \<and> is_leap (dt_year d) then 1 else 0) + dt_day d"

definition dt_weekday :: "datetime \<Rightarrow> int" where
  "dt_weekday d = (ordinal d + 6) mod 7"

definition dt_quarter :: "datetime \<Rightarrow> int" where
  "dt_quarter d = (dt_month d - 1) div 3 + 1"

subsection \<open>Records of the source\<close>

text \<open>\<^verbatim>\<open>PriceData\<close>; the rows of a historical data frame have the same columns.\<close>

record PriceData =
  crop_name :: string
  market_name :: string
  price :: real
  unit :: string
  date :: datetime
  quality :: string
  source :: string

record PricePrediction =
  p_crop_name :: string
  predicted_price :: real
  confidence :: real
  prediction_date :: datetime
  factors :: "(string \<times> pyfloat) list"
  recommendation :: string

subsection \<open>Regressors, scaler and the predictor's state\<close>

text \<open>
  A fitted regressor is named by its estimator and the rows and targets
  \<^verbatim>\<open>fit\<close> was called with: with the fixed hyperparameters and \<^verbatim>\<open>random_state\<close>
  of the source these determine it. What it predicts is the library's business and
  is a parameter of the development.
\<close>

datatype model_kind = random_forest | gradient_boosting | linear_regression

datatype model = Fitted model_kind "pyfloat list list" "real list"

text \<open>A fitted \<^verbatim>\<open>StandardScaler\<close>: its \<^verbatim>\<open>mean_\<close> and \<^verbatim>\<open>scale_\<close>.\<close>

record scaler =
  sc_mean :: "real list"
  sc_scale :: "real list"

text \<open>
  The library functions the source calls and this development does not define:
  \<open>predict\<close> is \<^verbatim>\<open>model.predict\<close> on one row, which may refuse its input;
  \<open>split_indices n\<close> are the row numbers \<^verbatim>\<open>train_test_split(test_size=0.2,
  random_state=42)\<close> puts in the training and in the test partition of \<open>n\<close> rows.
\<close>

record sklearn =
  predict :: "model \<Rightarrow> pyfloat list \<Rightarrow> error + real"
  split_indices :: "nat \<Rightarrow> nat list \<times> nat list"

text \<open>
  The object's fields, and the \<^verbatim>\<open>market_prices\<close> table of the database
  \<^verbatim>\<open>add_price_data\<close> writes to. \<^verbatim>\<open>label_encoders\<close> is created empty and
  never filled; its values are not modelled.
\<close>

record predictor =
  historical_data :: "string \<rightharpoonup> PriceData list"
  models :: "string \<rightharpoonup> model"
  scalers :: "string \<rightharpoonup> scaler"
  label_encoders :: "string \<rightharpoonup> unit"
  market_prices :: "PriceData list"

text \<open>What the numpy random generator returns during one call of
  \<^verbatim>\<open>predict_price\<close>: one normal draw and two uniform draws.\<close>

record draws =
  normal_0_005 :: real
  uniform_08_12 :: real
  uniform_09_11 :: real

section \<open>Scaling\<close>

text \<open>\<^verbatim>\<open>scaler.transform\<close> on one row: \<open>(x - mean_) / scale_\<close> per column;
  a row of another width is refused.\<close>

definition transform :: "scaler \<Rightarrow> pyfloat list \<Rightarrow> error + pyfloat list" where
  "transform sc row =
     (if length row = length (sc_mean sc) \<and> length row = length (sc_scale sc)
      then Inr (map (\<lambda>(x, m, s). fdiv_real (fsub_real x m) s)
                  (zip row (zip (sc_mean sc) (sc_scale sc))))
      else Inl ValueError)"

text \<open>The finite entries of column \<open>j\<close>.\<close>

definition column :: "pyfloat list list \<Rightarrow> nat \<Rightarrow> real list" where
  "column X j = concat (map (\<lambda>row. case row ! j of Fin x \<Rightarrow> [x] | _ \<Rightarrow> []) X)"

text \<open>\<^verbatim>\<open>StandardScaler().fit\<close>: column means and population standard deviations,
  a zero deviation replaced by 1; an empty table is refused.\<close>

definition fit_scaler :: "pyfloat list list \<Rightarrow> error + scaler" where
  "fit_scaler X =
     (case X of [] \<Rightarrow> Inl ValueError
      | row # _ \<Rightarrow>
          Inr \<lparr>sc_mean = map (\<lambda>j. mean (column X j)) [0..<length row],
               sc_scale = map (\<lambda>j. let c = column X j;
                                      sd = sqrt (mean (map (\<lambda>x. (x - mean c)\<^sup>2) c))
                                  in if sd = 0 then 1 else sd) [0..<length row]\<rparr>)"

section \<open>Prediction\<close>

text \<open>\<^verbatim>\<open>_prepare_prediction_features\<close>.\<close>

definition prepare_prediction_features ::
  "predictor \<Rightarrow> string \<Rightarrow> datetime \<Rightarrow> error + pyfloat list" where
  "prepare_prediction_features st c d =
     bind_err (lookup (historical_data st) c) (\<lambda>df.
       let recent = map price (tail 30 df);
           year = dt_year d; month = dt_month d; day = dt_day d;
           dayofyear = dt_dayofyear d; weekday = dt_weekday d;
           quarter = (dt_month d - 1) div 3 + 1;
           sin_dayofyear = sin (2 * pi * real_of_int dayofyear / 365);
           cos_dayofyear = cos (2 * pi * real_of_int dayofyear / 365);
           price_lag_1 = (if length recent > 0 then Fin (recent ! (length recent - 1))
                          else series_mean recent);
           price_lag_7 = (if length recent \<ge> 7 then Fin (recent ! (length recent - 7))
                          else series_mean recent);
           price_lag_30 = (if length recent \<ge> 30 then Fin (recent ! (length recent - 30))
                           else series_mean recent);
           price_ma_7 = series_mean (tail 7 recent);
           price_ma_30 = series_mean (tail 30 recent)
       in Inr [Fin (real_of_int year), Fin (real_of_int month), Fin (real_of_int day),
               Fin (real_of_int dayofyear), Fin (real_of_int weekday),
               Fin (real_of_int quarter), Fin sin_dayofyear, Fin cos_dayofyear,
               price_lag_1, price_lag_7, price_lag_30, price_ma_7, price_ma_30])"

text \<open>\<^verbatim>\<open>_calculate_confidence\<close>; \<open>z\<close> is the value of
  \<^verbatim>\<open>np.random.normal(0, 0.05)\<close>.\<close>

definition base_confidence :: "nat \<Rightarrow> real" where
  "base_confidence data_points =
     (if data_points > 1000 then 0.85 else if data_points > 500 then 0.75 else 0.65)"

definition calculate_confidence :: "predictor \<Rightarrow> string \<Rightarrow> real \<Rightarrow> error + real" where
  "calculate_confidence st c z =
     bind_err (lookup (historical_data st) c) (\<lambda>df.
       Inr (max 0.5 (min 0.95 (base_confidence (length df) + z))))"

text \<open>\<^verbatim>\<open>_analyze_prediction_factors\<close>; \<open>u1\<close> and \<open>u2\<close> are the values of
  \<^verbatim>\<open>np.random.uniform(0.8, 1.2)\<close> and \<^verbatim>\<open>np.random.uniform(0.9, 1.1)\<close>.\<close>

definition seasonal_demand :: "int \<Rightarrow> real" where
  "seasonal_demand month =
     (if month \<in> set [6, 7, 8, 9, 10] then 0.8
      else if month \<in> set [11, 12, 1, 2] then 1.2 else 1.0)"

definition analyze_prediction_factors ::
  "predictor \<Rightarrow> string \<Rightarrow> datetime \<Rightarrow> real \<Rightarrow> real \<Rightarrow> error + (string \<times> pyfloat) list" where
  "analyze_prediction_factors st c d u1 u2 =
     bind_err (lookup (historical_data st) c) (\<lambda>df.
       let recent_prices = tail 30 (map price df);
           trend = (if length recent_prices > 1
                    then fdiv_real (Fin (recent_prices ! (length recent_prices - 1)
                                         - recent_prices ! 0)) (recent_prices ! 0)
                    else Fin 0);
           price_std = series_std recent_prices;
           price_mean = series_mean recent_prices;
           volatility = (case price_mean of
                           Fin m \<Rightarrow> if m > 0 then fdiv_real price_std m else Fin 0
                         | _ \<Rightarrow> Fin 0)
       in Inr [(''seasonal_demand'', Fin (seasonal_demand (dt_month d))),
               (''price_trend'', trend),
               (''market_volatility'', volatility),
               (''supply_pressure'', Fin u1),
               (''demand_pressure'', Fin u2)])"

text \<open>\<^verbatim>\<open>" | ".join(recommendations)\<close>.\<close>

fun join :: "string \<Rightarrow> string list \<Rightarrow> string" where
  "join sep [] = []"
| "join sep [x] = x"
| "join sep (x # y # ys) = x @ sep @ join sep (y # ys)"

text \<open>\<^verbatim>\<open>_generate_price_recommendation\<close>; a factor that is missing is a
  \<^verbatim>\<open>KeyError\<close>.\<close>

definition generate_price_recommendation ::
  "string \<Rightarrow> real \<Rightarrow> (string \<times> pyfloat) list \<Rightarrow> error + string" where
  "generate_price_recommendation c predicted fs =
     bind_err (lookup (map_of fs) ''price_trend'') (\<lambda>trend.
     bind_err (lookup (map_of fs) ''seasonal_demand'') (\<lambda>seasonal.
     bind_err (lookup (map_of fs) ''market_volatility'') (\<lambda>volatility.
       Inr (join '' | ''
         ([if fgt trend (Fin 0.1)
           then ''Prices are trending upward - consider holding your produce''
           else if flt trend (Fin (- 0.1))
           then ''Prices are declining - consider selling soon''
           else ''Prices are stable - monitor market conditions'']
          @ (if fgt seasonal (Fin 1.1)
             then [''High seasonal demand expected - good time to sell'']
             else if flt seasonal (Fin 0.9)
             then [''Low seasonal demand - consider storing if possible'']
             else [])
          @ [if fgt volatility (Fin 0.2)
             then ''High market volatility - consider selling in smaller batches''
             else ''Stable market conditions - normal selling strategy recommended''])))))"

text \<open>
  \<^verbatim>\<open>predict_price\<close>. \<open>now\<close> is what \<^verbatim>\<open>datetime.now()\<close> returns, read only
  when no date is given; the \<^verbatim>\<open>except\<close> clause re-raises, so every error
  reaches the caller.
\<close>

definition predict_price ::
  "sklearn \<Rightarrow> predictor \<Rightarrow> string \<Rightarrow> datetime option \<Rightarrow> datetime \<Rightarrow> draws
     \<Rightarrow> error + PricePrediction" where
  "predict_price L st c prediction_date0 now rnd =
     bind_err (case prediction_date0 of None \<Rightarrow> add_days now 1 | Some d \<Rightarrow> Inr d) (\<lambda>d.
       if models st c = None then Inl ModelUnavailable
       else
         bind_err (prepare_prediction_features st c d) (\<lambda>features.
         bind_err (lookup (models st) c) (\<lambda>m.
         bind_err (lookup (scalers st) c) (\<lambda>sc.
         bind_err (transform sc features) (\<lambda>features_scaled.
         bind_err (predict L m features_scaled) (\<lambda>predicted.
         bind_err (calculate_confidence st c (normal_0_005 rnd)) (\<lambda>conf.
         bind_err (analyze_prediction_factors st c d (uniform_08_12 rnd) (uniform_09_11 rnd))
           (\<lambda>fs.
         bind_err (generate_price_recommendation c predicted fs) (\<lambda>rec.
           Inr \<lparr>p_crop_name = c, predicted_price = py_round2 predicted,
                confidence = conf, prediction_date = d, factors = fs,
                recommendation = rec\<rparr>)))))))))"

text \<open>
  \<^verbatim>\<open>get_price_forecast\<close>: the loop over \<^verbatim>\<open>range(days)\<close>, from iteration
  \<open>i\<close> on. \<open>clock i\<close> is what \<^verbatim>\<open>datetime.now()\<close> returns in iteration \<open>i\<close>,
  \<open>rnd i\<close> the random draws of that iteration's prediction. The first error ends
  the loop and reaches the caller.
\<close>

fun forecast_loop ::
  "sklearn \<Rightarrow> predictor \<Rightarrow> string \<Rightarrow> (nat \<Rightarrow> datetime) \<Rightarrow> (nat \<Rightarrow> draws)
     \<Rightarrow> nat \<Rightarrow> nat \<Rightarrow> error + PricePrediction list" where
  "forecast_loop L st c clock rnd i 0 = Inr []"
| "forecast_loop L st c clock rnd i (Suc k) =
     bind_err (add_days (clock i) (int i + 1)) (\<lambda>prediction_date.
     bind_err (predict_price L st c (Some prediction_date) (clock i) (rnd i)) (\<lambda>prediction.
     bind_err (forecast_loop L st c clock rnd (Suc i) k) (\<lambda>rest.
       Inr (prediction # rest))))"

definition get_price_forecast ::
  "sklearn \<Rightarrow> predictor \<Rightarrow> string \<Rightarrow> int \<Rightarrow> (nat \<Rightarrow> datetime) \<Rightarrow> (nat \<Rightarrow> draws)
     \<Rightarrow> error + PricePrediction list" where
  "get_price_forecast L st c days clock rnd = forecast_loop L st c clock rnd 0 (nat days)"

section \<open>Training\<close>

text \<open>\<^verbatim>\<open>Series.shift(k)\<close>: the value \<open>k\<close> rows earlier, NaN in the first \<open>k\<close> rows.\<close>

definition shift :: "nat \<Rightarrow> real list \<Rightarrow> pyfloat list" where
  "shift k xs = map (\<lambda>i. if i < k then NaN else Fin (xs ! (i - k))) [0..<length xs]"

text \<open>\<^verbatim>\<open>Series.rolling(window=w).mean()\<close>: the mean of the \<open>w\<close> rows ending at the
  current one, NaN while fewer than \<open>w\<close> rows exist.\<close>

definition rolling_mean :: "nat \<Rightarrow> real list \<Rightarrow> pyfloat list" where
  "rolling_mean w xs =
     map (\<lambda>i. if i + 1 < w then NaN else Fin (mean (take w (drop (i + 1 - w) xs))))
       [0..<length xs]"

text \<open>Row \<open>i\<close> of the feature table, its cells in the order of
  \<^verbatim>\<open>feature_columns\<close>, and the target \<^verbatim>\<open>price\<close> of that row.\<close>

definition feature_row :: "PriceData list \<Rightarrow> nat \<Rightarrow> pyfloat list" where
  "feature_row df i =
     (let d = date (df ! i); prices = map price df
      in [Fin (real_of_int (dt_year d)), Fin (real_of_int (dt_month d)),
          Fin (real_of_int (dt_day d)), Fin (real_of_int (dt_dayofyear d)),
          Fin (real_of_int (dt_weekday d)), Fin (real_of_int (dt_quarter d)),
          Fin (sin (2 * pi * real_of_int (dt_dayofyear d) / 365)),
          Fin (cos (2 * pi * real_of_int (dt_dayofyear d) / 365)),
          shift 1 prices ! i, shift 7 prices ! i, shift 30 prices ! i,
          rolling_mean 7 prices ! i, rolling_mean 30 prices ! i])"

definition feature_table :: "PriceData list \<Rightarrow> (pyfloat list \<times> real) list" where
  "feature_table df = map (\<lambda>i. (feature_row df i, price (df ! i))) [0..<length df]"

text \<open>\<^verbatim>\<open>dropna()\<close>: the rows without a NaN cell.\<close>

definition dropna :: "(pyfloat list \<times> real) list \<Rightarrow> (pyfloat list \<times> real) list" where
  "dropna rows = filter (\<lambda>(row, y). NaN \<notin> set row) rows"

text \<open>\<^verbatim>\<open>r2_score(y_true, y_pred)\<close>, with the library's finite values for a
  constant \<open>y_true\<close>.\<close>

definition r2_score :: "real list \<Rightarrow> real list \<Rightarrow> real" where
  "r2_score y_true y_pred =
     (let ss_res = sum_list (map (\<lambda>(t, p). (t - p)\<^sup>2) (zip y_true y_pred));
          ss_tot = sum_list (map (\<lambda>t. (t - mean y_true)\<^sup>2) y_true)
      in if ss_tot = 0 then (if ss_res = 0 then 1 else 0) else 1 - ss_res / ss_tot)"

text \<open>The partitions and the scaler the candidates are trained and scored with.\<close>

record split_data =
  X_train :: "pyfloat list list"
  X_test :: "pyfloat list list"
  y_train :: "real list"
  y_test :: "real list"
  the_scaler :: scaler
  X_train_scaled :: "pyfloat list list"
  X_test_scaled :: "pyfloat list list"

text \<open>Rows \<open>idx\<close> of a table; the library never hands out a row number that is
  out of range, and one that is would be dropped here.\<close>

definition select_rows :: "'a list \<Rightarrow> nat list \<Rightarrow> 'a list" where
  "select_rows xs idx = map (\<lambda>i. xs ! i) (filter (\<lambda>i. i < length xs) idx)"

text \<open>Lines 209 to 223 of the source: features and target, the split, the scaler
  fitted on the training partition and applied to both.\<close>

definition prepare_split :: "sklearn \<Rightarrow> (pyfloat list \<times> real) list \<Rightarrow> error + split_data" where
  "prepare_split L data =
     (let X = map fst data; y = map snd data;
          tr = fst (split_indices L (length X)); te = snd (split_indices L (length X));
          Xtr = select_rows X tr; Xte = select_rows X te
      in bind_err (fit_scaler Xtr) (\<lambda>sc.
         bind_err (map_err (transform sc) Xtr) (\<lambda>Xtr_s.
         bind_err (map_err (transform sc) Xte) (\<lambda>Xte_s.
           Inr \<lparr>X_train = Xtr, X_test = Xte, y_train = select_rows y tr,
                y_test = select_rows y te, the_scaler = sc,
                X_train_scaled = Xtr_s, X_test_scaled = Xte_s\<rparr>))))"

text \<open>The keys of the \<^verbatim>\<open>models\<close> dictionary of candidates, in insertion order.\<close>

definition candidate_names :: "model_kind list" where
  "candidate_names = [random_forest, gradient_boosting, linear_regression]"

text \<open>One pass of the loop body up to the score: the linear regression is fitted
  and scored on the scaled rows, the other candidates on the unscaled rows.\<close>

definition evaluate :: "sklearn \<Rightarrow> split_data \<Rightarrow> model_kind \<Rightarrow> error + (model \<times> real)" where
  "evaluate L sd name =
     (if name = linear_regression
      then (let m = Fitted name (X_train_scaled sd) (y_train sd)
            in bind_err (map_err (predict L m) (X_test_scaled sd)) (\<lambda>y_pred.
                 Inr (m, r2_score (y_test sd) y_pred)))
      else (let m = Fitted name (X_train sd) (y_train sd)
            in bind_err (map_err (predict L m) (X_test sd)) (\<lambda>y_pred.
                 Inr (m, r2_score (y_test sd) y_pred))))"

text \<open>The selection loop, with \<^verbatim>\<open>best_model\<close> and \<^verbatim>\<open>best_score\<close> as its
  state; they start as \<^verbatim>\<open>None\<close> and \<^verbatim>\<open>-np.inf\<close>.\<close>

fun select_loop ::
  "sklearn \<Rightarrow> split_data \<Rightarrow> model_kind list \<Rightarrow> model option \<times> pyfloat
     \<Rightarrow> error + (model option \<times> pyfloat)" where
  "select_loop L sd [] best = Inr best"
| "select_loop L sd (name # rest) (best_model, best_score) =
     bind_err (evaluate L sd name) (\<lambda>(m, score).
       select_loop L sd rest
         (if fgt (Fin score) best_score then (Some m, Fin score)
          else (best_model, best_score)))"

text \<open>
  \<^verbatim>\<open>_train_crop_model\<close>. Every exception is caught and logged by the
  \<^verbatim>\<open>except\<close> clause, which leaves the object as it was: the two stores are
  the last statements of the \<^verbatim>\<open>try\<close> block. \<^verbatim>\<open>best_model\<close> is still
  \<^verbatim>\<open>None\<close> after the loop only if no candidate was scored, which the three
  candidates exclude.
\<close>

definition train_crop_model :: "sklearn \<Rightarrow> predictor \<Rightarrow> string \<Rightarrow> predictor" where
  "train_crop_model L st c =
     (case historical_data st c of
        None \<Rightarrow> st
      | Some df \<Rightarrow>
          (let data = dropna (feature_table df)
           in if length data < 100 then st
              else
                (case bind_err (prepare_split L data) (\<lambda>sd.
                        bind_err (select_loop L sd candidate_names (None, NInf)) (\<lambda>best.
                          Inr (fst best, the_scaler sd))) of
                   Inl e \<Rightarrow> st
                 | Inr (None, sc) \<Rightarrow> st
                 | Inr (Some best_model, sc) \<Rightarrow>
                     st\<lparr>models := (models st)(c \<mapsto> best_model),
                        scalers := (scalers st)(c \<mapsto> sc)\<rparr>)))"

text \<open>\<^verbatim>\<open>load_historical_data\<close>: the generated frames, one per crop of the
  dictionary literal, are stored and a model is trained for each key in order.\<close>

definition load_historical_data ::
  "sklearn \<Rightarrow> predictor \<Rightarrow> (string \<times> PriceData list) list \<Rightarrow> predictor" where
  "load_historical_data L st frames =
     foldl (train_crop_model L) (st\<lparr>historical_data := map_of frames\<rparr>) (map fst frames)"

section \<open>Persistence and the price table\<close>

text \<open>
  What \<^verbatim>\<open>joblib.load\<close> returns, seen through the three subscripts
  \<^verbatim>\<open>load_models\<close> applies to it: the field \<open>a_models\<close> is what
  \<^verbatim>\<open>model_data['models']\<close> answers, and \<open>None\<close> when that subscript raises (a
  dictionary without the key, an object that has no such subscript); likewise for the
  other two. The source never asks whether the object is a dictionary. An answer is
  taken to be of the kind \<^verbatim>\<open>save_models\<close> writes under that key.
\<close>

record artifact =
  a_models :: "(string \<rightharpoonup> model) option"
  a_scalers :: "(string \<rightharpoonup> scaler) option"
  a_label_encoders :: "(string \<rightharpoonup> unit) option"

text \<open>\<^verbatim>\<open>save_models\<close>; \<open>ok\<close> tells whether \<^verbatim>\<open>joblib.dump\<close> could write the
  file. A failure is caught and logged, and nothing is written.\<close>

definition save_models ::
  "predictor \<Rightarrow> (string \<rightharpoonup> artifact) \<Rightarrow> string \<Rightarrow> bool \<Rightarrow> (string \<rightharpoonup> artifact)" where
  "save_models st files filepath ok =
     (if ok
      then files(filepath \<mapsto> \<lparr>a_models = Some (models st), a_scalers = Some (scalers st),
                                a_label_encoders = Some (label_encoders st)\<rparr>)
      else files)"

text \<open>
  \<^verbatim>\<open>load_models\<close>: \<open>files filepath\<close> is \<open>None\<close> when \<^verbatim>\<open>joblib.load\<close>
  itself raises. Then come the three assignments in order; the first exception is
  caught and logged, the assignments made before it stay, and the call returns
  normally.
\<close>

definition load_models :: "predictor \<Rightarrow> (string \<rightharpoonup> artifact) \<Rightarrow> string \<Rightarrow> predictor" where
  "load_models st files filepath =
     (case files filepath of
        None \<Rightarrow> st
      | Some model_data \<Rightarrow>
          (case a_models model_data of
             None \<Rightarrow> st
           | Some ms \<Rightarrow>
               (let st1 = st\<lparr>models := ms\<rparr>
                in case a_scalers model_data of
                     None \<Rightarrow> st1
                   | Some scs \<Rightarrow>
                       (let st2 = st1\<lparr>scalers := scs\<rparr>
                        in case a_label_encoders model_data of
                             None \<Rightarrow> st2
                           | Some les \<Rightarrow> st2\<lparr>label_encoders := les\<rparr>))))"

text \<open>\<^verbatim>\<open>add_price_data\<close>: one row appended to the \<^verbatim>\<open>market_prices\<close> table,
  with the time of day dropped from the date; \<open>ok\<close> tells whether the database
  accepted it. A failure is caught and logged.\<close>

definition add_price_data :: "predictor \<Rightarrow> PriceData \<Rightarrow> bool \<Rightarrow> predictor" where
  "add_price_data st price_data ok =
     (if ok
      then st\<lparr>market_prices := market_prices st @ [price_data\<lparr>date := (date price_data)\<lparr>tod := 0\<rparr>\<rparr>]\<rparr>
      else st)"

section \<open>Auxiliary definitions\<close>

text \<open>One pass of the selection loop over an already scored candidate.\<close>

definition select_step :: "model option \<times> pyfloat \<Rightarrow> model \<times> real \<Rightarrow> model option \<times> pyfloat" where
  "select_step best c =
     (if fgt (Fin (snd c)) (snd best) then (Some (fst c), Fin (snd c)) else best)"

text \<open>
  Example inputs. \<open>lib0\<close> is a library whose regressors predict the ninth cell of
  the row they are given (the one-day lag) and whose split puts the first fifth of the
  rows in the test partition. \<open>rice_frame\<close> holds 200 consecutive daily prices from
  2020-01-01 on, all 30 but the last, which is 33.
\<close>

definition lib0 :: sklearn where
  "lib0 = \<lparr>predict = (\<lambda>m row. Inr (case (if 8 < length row then row ! 8 else NaN) of
                                       Fin x \<Rightarrow> x | _ \<Rightarrow> 0)),
           split_indices = (\<lambda>n. ([n div 5..<n], [0..<n div 5]))\<rparr>"

definition daily_frame :: "string \<Rightarrow> int \<Rightarrow> real list \<Rightarrow> PriceData list" where
  "daily_frame c o0 ps =
     map (\<lambda>i. \<lparr>crop_name = c, market_name = ''Kerala Market'', price = ps ! i,
              unit = ''kg'', date = \<lparr>ordinal = o0 + int i, tod = 0\<rparr>,
              quality = ''Grade A'', source = ''Historical Data''\<rparr>) [0..<length ps]"

definition rice_frame :: "PriceData list" where
  "rice_frame = daily_frame ''Rice'' 737425 (replicate 199 30 @ [33])"

definition st0 :: predictor where
  "st0 = \<lparr>historical_data = [''Rice'' \<mapsto> rice_frame], models = Map.empty,
          scalers = Map.empty, label_encoders = Map.empty, market_prices = []\<rparr>"

definition st_trained :: predictor where
  "st_trained = train_crop_model lib0 st0 ''Rice''"

definition rnd0 :: draws where
  "rnd0 = \<lparr>normal_0_005 = 0, uniform_08_12 = 1, uniform_09_11 = 1\<rparr>"

definition day0 :: datetime where
  "day0 = \<lparr>ordinal = 740000, tod = 0\<rparr>"

definition saffron_frame :: "PriceData list" where
  "saffron_frame = daily_frame ''Saffron'' 737425 (replicate 40 500)"

definition st_saffron :: predictor where
  "st_saffron = \<lparr>historical_data = [''Saffron'' \<mapsto> saffron_frame], models = Map.empty,
          scalers = Map.empty, label_encoders = Map.empty, market_prices = []\<rparr>"

definition rice_report :: PriceData where
  "rice_report = \<lparr>crop_name = ''Rice'', market_name = ''Kochi'', price = 45,
                   unit = ''kg'', date = \<lparr>ordinal = 739900, tod = 36000000000\<rparr>,
                   quality = ''Grade A'', source = ''Mandi''\<rparr>"

text \<open>A stored object that answers \<^verbatim>\<open>['models']\<close> with an empty dictionary and
  raises on the other two subscripts.\<close>

definition models_only :: artifact where
  "models_only = \<lparr>a_models = Some Map.empty, a_scalers = None, a_label_encoders = None\<rparr>"

definition rnd1 :: draws where
  "rnd1 = \<lparr>normal_0_005 = 0.05, uniform_08_12 = 1.1, uniform_09_11 = 0.95\<rparr>"

text \<open>A clock that is read just before midnight in the first iteration and just after
  it in the second.\<close>

definition clock_midnight :: "nat \<Rightarrow> datetime" where
  "clock_midnight i = (if i = 0 then \<lparr>ordinal = 740000, tod = 86399999999\<rparr>
                        else \<lparr>ordinal = 740001, tod = 5\<rparr>)"

text \<open>The prediction dates of a forecast.\<close>

definition forecast_dates :: "error + PricePrediction list \<Rightarrow> error + datetime list" where
  "forecast_dates r = (case r of Inl e \<Rightarrow> Inl e | Inr ps \<Rightarrow> Inr (map prediction_date ps))"



text \<open>A 40-day rice series, and the trained example object with that series in place
  of the one its model was trained on.\<close>

definition short_rice_frame :: "PriceData list" where
  "short_rice_frame = daily_frame ''Rice'' 737425 (replicate 40 30)"

definition st_stale :: predictor where
  "st_stale = st_trained\<lparr>historical_data := [''Rice'' \<mapsto> short_rice_frame]\<rparr>"

text \<open>A freshly constructed object: its rice series was generated anew (all prices
  30) and its own model was trained on it.\<close>

definition fresh_rice_frame :: "PriceData list" where
  "fresh_rice_frame = daily_frame ''Rice'' 737425 (replicate 200 30)"

definition st_fresh :: predictor where
  "st_fresh = train_crop_model lib0
     \<lparr>historical_data = [''Rice'' \<mapsto> fresh_rice_frame], models = Map.empty,
      scalers = Map.empty, label_encoders = Map.empty, market_prices = []\<rparr> ''Rice''"

section \<open>Basic facts\<close>

lemma bind_err_Inr_iff: "bind_err m f = Inr y \<longleftrightarrow> (\<exists>x. m = Inr x \<and> f x = Inr y)"
  by (cases m) (simp_all add: bind_err_def)

lemma bind_err_Inr [simp]: "bind_err (Inr x) f = f x"
  by (simp add: bind_err_def)

lemma bind_err_Inl [simp]: "bind_err (Inl e) f = Inl e"
  by (simp add: bind_err_def)

lemma lookup_Some [simp]: "m k = Some v \<Longrightarrow> lookup m k = Inr v"
  by (simp add: lookup_def)

lemma lookup_None [simp]: "m k = None \<Longrightarrow> lookup m k = Inl KeyError"
  by (simp add: lookup_def)

lemma lookup_Inr_iff: "lookup m k = Inr v \<longleftrightarrow> m k = Some v"
  by (simp add: lookup_def split: option.splits)

lemma base_confidence_mono: "n \<le> m \<Longrightarrow> base_confidence n \<le> base_confidence m"
  by (simp add: base_confidence_def)

lemma clamp_range: "0.5 \<le> max 0.5 (min 0.95 (x::real)) \<and> max 0.5 (min 0.95 x) \<le> 0.95"
  by (simp add: max_def min_def)

lemma predict_price_confidence:
  assumes "predict_price L st c d0 now rnd = Inr p"
  shows "\<exists>df. historical_data st c = Some df \<and>
     confidence p = max 0.5 (min 0.95 (base_confidence (length df) + normal_0_005 rnd))"
  using assms
  by (auto simp: predict_price_def bind_err_Inr_iff calculate_confidence_def lookup_Inr_iff
      split: if_splits)

lemma prepare_features_Inr:
  "historical_data st c = Some df \<Longrightarrow>
     \<exists>f. prepare_prediction_features st c d = Inr f \<and> length f = 13"
  by (simp add: prepare_prediction_features_def Let_def)

lemma transform_Inr:
  "length row = length (sc_mean sc) \<Longrightarrow> length row = length (sc_scale sc) \<Longrightarrow>
     \<exists>r. transform sc row = Inr r \<and> length r = length row"
  by (simp add: transform_def)

lemma analyze_Inr:
  "historical_data st c = Some df \<Longrightarrow>
     \<exists>t v. analyze_prediction_factors st c d u1 u2 =
        Inr [(''seasonal_demand'', Fin (seasonal_demand (dt_month d))), (''price_trend'', t),
             (''market_volatility'', v), (''supply_pressure'', Fin u1),
             (''demand_pressure'', Fin u2)]"
  by (simp add: analyze_prediction_factors_def Let_def)

lemma recommendation_Inr:
  "\<exists>r. generate_price_recommendation c x
        [(''seasonal_demand'', s), (''price_trend'', t),
         (''market_volatility'', v), (''supply_pressure'', a),
         (''demand_pressure'', b)] = Inr r"
  by (simp add: generate_price_recommendation_def)

lemma predict_price_succeeds:
  assumes m: "models st c = Some m" and df: "historical_data st c = Some df"
    and sc: "scalers st c = Some sc"
    and l1: "length (sc_mean sc) = 13" and l2: "length (sc_scale sc) = 13"
    and lib: "\<And>row. length row = 13 \<Longrightarrow> \<exists>v. predict L m row = Inr v"
  shows "\<exists>p. predict_price L st c (Some d) now rnd = Inr p \<and> prediction_date p = d"
proof -
  from prepare_features_Inr[OF df] obtain f where
    f: "prepare_prediction_features st c d = Inr f" "length f = 13" by blast
  from transform_Inr[of f sc] f l1 l2 obtain r where
    r: "transform sc f = Inr r" and lr: "length r = 13" by auto
  from lib[OF lr] obtain v where v: "predict L m r = Inr v" by blast
  from analyze_Inr[OF df] obtain t vo where
    a: "analyze_prediction_factors st c d (uniform_08_12 rnd) (uniform_09_11 rnd) =
        Inr [(''seasonal_demand'', Fin (seasonal_demand (dt_month d))), (''price_trend'', t),
             (''market_volatility'', vo), (''supply_pressure'', Fin (uniform_08_12 rnd)),
             (''demand_pressure'', Fin (uniform_09_11 rnd))]" by blast
  from recommendation_Inr obtain rc where
    rc: "generate_price_recommendation c v
        [(''seasonal_demand'', Fin (seasonal_demand (dt_month d))), (''price_trend'', t),
             (''market_volatility'', vo), (''supply_pressure'', Fin (uniform_08_12 rnd)),
             (''demand_pressure'', Fin (uniform_09_11 rnd))] = Inr rc" by blast
  show ?thesis
    by (simp add: predict_price_def m df sc f r v a rc calculate_confidence_def)
qed

lemma select_loop_foldl:
  "map (evaluate L sd) names = map Inr cs \<Longrightarrow>
     select_loop L sd names best = Inr (foldl select_step best cs)"
proof (induction names arbitrary: cs best)
  case Nil
  then show ?case by simp
next
  case (Cons n names)
  then obtain c cs' where cs: "cs = c # cs'" "evaluate L sd n = Inr c"
    "map (evaluate L sd) names = map Inr cs'" by (cases cs) auto
  obtain bm bs where best: "best = (bm, bs)" by (cases best)
  obtain m s where c: "c = (m, s)" by (cases c)
  show ?case
    using Cons.IH[OF cs(3)] cs(2) by (simp add: cs(1) best c select_step_def)
qed

lemma select_step_Fin:
  "select_step (bm, Fin b) c = (if b < snd c then (Some (fst c), Fin (snd c)) else (bm, Fin b))"
  by (simp add: select_step_def)

lemma select_step_NInf: "select_step (bm, NInf) c = (Some (fst c), Fin (snd c))"
  by (simp add: select_step_def)

lemma foldl_select_from_Fin:
  "foldl select_step (bm, Fin b) cs = (bm', bs') \<Longrightarrow>
     \<exists>b'. bs' = Fin b' \<and> b \<le> b' \<and> (\<forall>j<length cs. snd (cs ! j) \<le> b') \<and>
       ((bm' = bm \<and> b' = b) \<or>
        (\<exists>i<length cs. bm' = Some (fst (cs ! i)) \<and> b' = snd (cs ! i) \<and> b < b' \<and>
            (\<forall>j<i. snd (cs ! j) < b')))"
proof (induction cs arbitrary: bm b)
  case Nil
  then show ?case by simp
next
  case (Cons c cs)
  show ?case
  proof (cases "snd c > b")
    case True
    with Cons.prems have "foldl select_step (Some (fst c), Fin (snd c)) cs = (bm', bs')"
      by (simp add: select_step_Fin)
    from Cons.IH[OF this] obtain b' where b': "bs' = Fin b'" "snd c \<le> b'"
      "\<forall>j<length cs. snd (cs ! j) \<le> b'"
      "(bm' = Some (fst c) \<and> b' = snd c) \<or>
        (\<exists>i<length cs. bm' = Some (fst (cs ! i)) \<and> b' = snd (cs ! i) \<and> snd c < b' \<and>
            (\<forall>j<i. snd (cs ! j) < b'))" by blast
    have all: "\<forall>j<length (c # cs). snd ((c # cs) ! j) \<le> b'"
      using b'(2,3) by (auto simp: nth_Cons')
    from b'(4) have "\<exists>i<length (c # cs). bm' = Some (fst ((c # cs) ! i)) \<and>
        b' = snd ((c # cs) ! i) \<and> b < b' \<and> (\<forall>j<i. snd ((c # cs) ! j) < b')"
    proof
      assume "bm' = Some (fst c) \<and> b' = snd c"
      then show ?thesis using True by (intro exI[of _ 0]) simp
    next
      assume "\<exists>i<length cs. bm' = Some (fst (cs ! i)) \<and> b' = snd (cs ! i) \<and> snd c < b' \<and>
            (\<forall>j<i. snd (cs ! j) < b')"
      then obtain i where i: "i < length cs" "bm' = Some (fst (cs ! i))" "b' = snd (cs ! i)"
        "snd c < b'" "\<forall>j<i. snd (cs ! j) < b'" by blast
      show ?thesis
        using i True by (intro exI[of _ "Suc i"]) (auto simp: nth_Cons' less_Suc_eq_0_disj)
    qed
    with b'(1,2) all True show ?thesis by (intro exI[of _ b']) auto
  next
    case False
    with Cons.prems have "foldl select_step (bm, Fin b) cs = (bm', bs')"
      by (simp add: select_step_Fin)
    from Cons.IH[OF this] obtain b' where b': "bs' = Fin b'" "b \<le> b'"
      "\<forall>j<length cs. snd (cs ! j) \<le> b'"
      "(bm' = bm \<and> b' = b) \<or>
        (\<exists>i<length cs. bm' = Some (fst (cs ! i)) \<and> b' = snd (cs ! i) \<and> b < b' \<and>
            (\<forall>j<i. snd (cs ! j) < b'))" by blast
    have all: "\<forall>j<length (c # cs). snd ((c # cs) ! j) \<le> b'"
      using b'(2,3) False by (auto simp: nth_Cons')
    from b'(4) have "(bm' = bm \<and> b' = b) \<or> (\<exists>i<length (c # cs). bm' = Some (fst ((c # cs) ! i)) \<and>
        b' = snd ((c # cs) ! i) \<and> b < b' \<and> (\<forall>j<i. snd ((c # cs) ! j) < b'))"
    proof
      assume "bm' = bm \<and> b' = b"
      then show ?thesis by simp
    next
      assume "\<exists>i<length cs. bm' = Some (fst (cs ! i)) \<and> b' = snd (cs ! i) \<and> b < b' \<and>
            (\<forall>j<i. snd (cs ! j) < b')"
      then obtain i where i: "i < length cs" "bm' = Some (fst (cs ! i))" "b' = snd (cs ! i)"
        "b < b'" "\<forall>j<i. snd (cs ! j) < b'" by blast
      have "\<exists>i<length (c # cs). bm' = Some (fst ((c # cs) ! i)) \<and>
        b' = snd ((c # cs) ! i) \<and> b < b' \<and> (\<forall>j<i. snd ((c # cs) ! j) < b')"
        using i False by (intro exI[of _ "Suc i"]) (auto simp: nth_Cons' less_Suc_eq_0_disj)
      then show ?thesis by blast
    qed
    with b'(1,2) all show ?thesis by (intro exI[of _ b']) auto
  qed
qed

lemma foldl_select_first_max:
  assumes "cs \<noteq> []"
  shows "\<exists>i<length cs. foldl select_step (None, NInf) cs = (Some (fst (cs ! i)), Fin (snd (cs ! i)))
     \<and> (\<forall>j<length cs. snd (cs ! j) \<le> snd (cs ! i)) \<and> (\<forall>j<i. snd (cs ! j) < snd (cs ! i))"
proof -
  from assms obtain c cs' where cs: "cs = c # cs'" by (cases cs) auto
  obtain bm' bs' where r: "foldl select_step (Some (fst c), Fin (snd c)) cs' = (bm', bs')"
    by (cases "foldl select_step (Some (fst c), Fin (snd c)) cs'")
  have start: "foldl select_step (None, NInf) cs = (bm', bs')"
    using r by (simp add: cs select_step_NInf)
  from foldl_select_from_Fin[OF r] obtain b' where b': "bs' = Fin b'" "snd c \<le> b'"
      "\<forall>j<length cs'. snd (cs' ! j) \<le> b'"
      "(bm' = Some (fst c) \<and> b' = snd c) \<or>
        (\<exists>i<length cs'. bm' = Some (fst (cs' ! i)) \<and> b' = snd (cs' ! i) \<and> snd c < b' \<and>
            (\<forall>j<i. snd (cs' ! j) < b'))" by blast
  have all: "\<forall>j<length cs. snd (cs ! j) \<le> b'"
    using b'(2,3) by (auto simp: cs nth_Cons')
  from b'(4) show ?thesis
  proof
    assume "bm' = Some (fst c) \<and> b' = snd c"
    then show ?thesis using start b'(1) all by (intro exI[of _ 0]) (simp add: cs)
  next
    assume "\<exists>i<length cs'. bm' = Some (fst (cs' ! i)) \<and> b' = snd (cs' ! i) \<and> snd c < b' \<and>
            (\<forall>j<i. snd (cs' ! j) < b')"
    then obtain i where i: "i < length cs'" "bm' = Some (fst (cs' ! i))" "b' = snd (cs' ! i)"
        "snd c < b'" "\<forall>j<i. snd (cs' ! j) < b'" by blast
    show ?thesis
      using i start b'(1) all
      by (intro exI[of _ "Suc i"]) (auto simp: cs nth_Cons' less_Suc_eq_0_disj)
  qed
qed

lemma shift_nth:
  "i < length xs \<Longrightarrow> shift k xs ! i = (if i < k then NaN else Fin (xs ! (i - k)))"
  by (simp add: shift_def)

lemma rolling_mean_nth:
  "i < length xs \<Longrightarrow>
     rolling_mean w xs ! i =
       (if i + 1 < w then NaN else Fin (mean (take w (drop (i + 1 - w) xs))))"
  by (simp add: rolling_mean_def)

lemma length_feature_row: "length (feature_row df i) = 13"
  by (simp add: feature_row_def Let_def)

lemma feature_row_NaN:
  "i < length df \<Longrightarrow> NaN \<in> set (feature_row df i) \<longleftrightarrow> i < 30"
  by (auto simp: feature_row_def Let_def shift_nth rolling_mean_nth)

lemma filter_ge_upt: "filter (\<lambda>i. k \<le> i) [0..<n] = [k..<n]"
  by (induction n) auto

lemma dropna_feature_table:
  "dropna (feature_table df) =
     map (\<lambda>i. (feature_row df i, price (df ! i))) [30..<length df]"
proof -
  have "filter (\<lambda>i. NaN \<notin> set (feature_row df i)) [0..<length df] =
        filter (\<lambda>i. 30 \<le> i) [0..<length df]"
    by (rule filter_cong) (auto simp: feature_row_NaN)
  then show ?thesis
    by (simp add: dropna_def feature_table_def filter_map o_def filter_ge_upt)
qed

lemma length_dropna_feature_table:
  "length (dropna (feature_table df)) = length df - 30"
  by (simp add: dropna_feature_table)

lemma dropna_rows_length:
  "r \<in> set (map fst (dropna (feature_table df))) \<Longrightarrow> length r = 13"
  by (auto simp: dropna_feature_table length_feature_row)

lemma map_err_Inr:
  "(\<And>x. x \<in> set xs \<Longrightarrow> \<exists>y. f x = Inr y) \<Longrightarrow>
     \<exists>ys. map_err f xs = Inr ys \<and> length ys = length xs"
proof (induction xs)
  case Nil
  then show ?case by simp
next
  case (Cons x xs)
  from Cons.prems obtain y where y: "f x = Inr y" by auto
  from Cons.IH Cons.prems obtain ys where "map_err f xs = Inr ys" "length ys = length xs"
    by auto
  with y show ?case by simp
qed

lemma set_select_rows: "set (select_rows xs idx) \<subseteq> set xs"
  by (auto simp: select_rows_def)

lemma fit_scaler_Inr:
  assumes "X \<noteq> []" and "\<And>r. r \<in> set X \<Longrightarrow> length r = k"
  shows "\<exists>sc. fit_scaler X = Inr sc \<and> length (sc_mean sc) = k \<and> length (sc_scale sc) = k"
proof -
  from assms(1) obtain r rs where X: "X = r # rs" by (cases X) auto
  with assms(2) have "length r = k" by simp
  then show ?thesis by (simp add: fit_scaler_def X)
qed

lemma select_rows_length:
  "(\<And>x. x \<in> set xs \<Longrightarrow> length x = k) \<Longrightarrow> r \<in> set (select_rows xs idx) \<Longrightarrow> length r = k"
  by (auto simp: select_rows_def)

lemma transform_all_Inr:
  assumes "\<And>r. r \<in> set rows \<Longrightarrow> length r = k"
    and "length (sc_mean sc) = k" and "length (sc_scale sc) = k"
  shows "\<exists>ys. map_err (transform sc) rows = Inr ys"
proof -
  have "\<exists>y. transform sc r = Inr y" if "r \<in> set rows" for r
  proof -
    have "length r = k" using assms(1) that by blast
    then show ?thesis by (simp add: transform_def assms(2,3))
  qed
  from map_err_Inr[of rows "transform sc", OF this] show ?thesis by blast
qed

lemma prepare_split_succeeds:
  assumes rows: "\<And>r. r \<in> set (map fst data) \<Longrightarrow> length r = k"
    and ne: "select_rows (map fst data) (fst (split_indices L (length data))) \<noteq> []"
  shows "\<exists>sd. prepare_split L data = Inr sd"
proof -
  define tr where "tr = select_rows (map fst data) (fst (split_indices L (length data)))"
  define te where "te = select_rows (map fst data) (snd (split_indices L (length data)))"
  have tr: "length r = k" if "r \<in> set tr" for r
    using select_rows_length[OF rows] that unfolding tr_def by blast
  have te: "length r = k" if "r \<in> set te" for r
    using select_rows_length[OF rows] that unfolding te_def by blast
  have "tr \<noteq> []" using ne by (simp add: tr_def)
  from fit_scaler_Inr[OF this tr] obtain sc where sc: "fit_scaler tr = Inr sc"
    "length (sc_mean sc) = k" "length (sc_scale sc) = k" by blast
  from transform_all_Inr[OF tr sc(2,3)] obtain a where
    a: "map_err (transform sc) tr = Inr a" by blast
  from transform_all_Inr[OF te sc(2,3)] obtain b where
    b: "map_err (transform sc) te = Inr b" by blast
  have "prepare_split L data =
      Inr \<lparr>X_train = tr, X_test = te,
           y_train = select_rows (map snd data) (fst (split_indices L (length data))),
           y_test = select_rows (map snd data) (snd (split_indices L (length data))),
           the_scaler = sc, X_train_scaled = a, X_test_scaled = b\<rparr>"
    unfolding prepare_split_def Let_def length_map tr_def[symmetric] te_def[symmetric]
    by (simp only: sc(1) a b bind_err_Inr)
  then show ?thesis by blast
qed

lemma evaluate_succeeds:
  assumes "\<And>m row. \<exists>v. predict L m row = Inr v"
  shows "\<exists>m s. evaluate L sd k = Inr (m, s)"
proof (cases "k = linear_regression")
  case True
  from map_err_Inr[of "X_test_scaled sd" "predict L (Fitted k (X_train_scaled sd) (y_train sd))"]
    assms obtain ys where
    "map_err (predict L (Fitted k (X_train_scaled sd) (y_train sd))) (X_test_scaled sd) = Inr ys"
    by blast
  with True show ?thesis by (simp add: evaluate_def)
next
  case False
  from map_err_Inr[of "X_test sd" "predict L (Fitted k (X_train sd) (y_train sd))"]
    assms obtain ys where
    "map_err (predict L (Fitted k (X_train sd) (y_train sd))) (X_test sd) = Inr ys"
    by blast
  with False show ?thesis by (simp add: evaluate_def)
qed

lemma candidates_succeed:
  assumes "\<And>m row. \<exists>v. predict L m row = Inr v"
  shows "\<exists>cs. map (evaluate L sd) candidate_names = map Inr cs"
proof -
  from evaluate_succeeds[OF assms] obtain m1 s1 where
    1: "evaluate L sd random_forest = Inr (m1, s1)" by blast
  from evaluate_succeeds[OF assms] obtain m2 s2 where
    2: "evaluate L sd gradient_boosting = Inr (m2, s2)" by blast
  from evaluate_succeeds[OF assms] obtain m3 s3 where
    3: "evaluate L sd linear_regression = Inr (m3, s3)" by blast
  show ?thesis
    by (rule exI[of _ "[(m1, s1), (m2, s2), (m3, s3)]"]) (simp add: candidate_names_def 1 2 3)
qed

lemma prepare_split_scaler:
  assumes rows: "\<And>r. r \<in> set (map fst data) \<Longrightarrow> length r = k"
    and sd: "prepare_split L data = Inr sd"
  shows "length (sc_mean (the_scaler sd)) = k \<and> length (sc_scale (the_scaler sd)) = k"
proof -
  define tr where "tr = select_rows (map fst data) (fst (split_indices L (length data)))"
  from sd obtain sc where sc: "fit_scaler tr = Inr sc" "the_scaler sd = sc"
    unfolding prepare_split_def Let_def length_map tr_def[symmetric]
    by (auto simp: bind_err_Inr_iff)
  have tr: "length r = k" if "r \<in> set tr" for r
    using select_rows_length[OF rows] that unfolding tr_def by blast
  from sc(1) have "tr \<noteq> []" by (auto simp: fit_scaler_def)
  from fit_scaler_Inr[OF this tr] sc show ?thesis by auto
qed

lemma train_crop_model_result:
  assumes df: "historical_data st c = Some df"
    and n: "100 \<le> length (dropna (feature_table df))"
    and sd: "prepare_split L (dropna (feature_table df)) = Inr sd"
    and cs: "map (evaluate L sd) candidate_names = map Inr cs"
  shows "\<exists>i<length cs.
           train_crop_model L st c =
             st\<lparr>models := (models st)(c \<mapsto> fst (cs ! i)),
                scalers := (scalers st)(c \<mapsto> the_scaler sd)\<rparr> \<and>
           (\<forall>j<length cs. snd (cs ! j) \<le> snd (cs ! i)) \<and>
           (\<forall>j<i. snd (cs ! j) < snd (cs ! i))"
proof -
  from cs have "length cs = length candidate_names"
    by (metis length_map)
  then have ne: "cs \<noteq> []" by (auto simp: candidate_names_def)
  from foldl_select_first_max[OF ne] obtain i where i: "i < length cs"
    "foldl select_step (None, NInf) cs = (Some (fst (cs ! i)), Fin (snd (cs ! i)))"
    "\<forall>j<length cs. snd (cs ! j) \<le> snd (cs ! i)" "\<forall>j<i. snd (cs ! j) < snd (cs ! i)"
    by blast
  have loop: "select_loop L sd candidate_names (None, NInf) =
      Inr (Some (fst (cs ! i)), Fin (snd (cs ! i)))"
    using select_loop_foldl[OF cs, of "(None, NInf)"] i(2) by simp
  have "train_crop_model L st c =
      st\<lparr>models := (models st)(c \<mapsto> fst (cs ! i)),
         scalers := (scalers st)(c \<mapsto> the_scaler sd)\<rparr>"
    using n by (simp add: train_crop_model_def df sd loop Let_def)
  then show ?thesis using i by (intro exI[of _ i]) simp
qed

subsection \<open>The example inputs\<close>

lemma lib0_total: "\<exists>v. predict lib0 m row = Inr v"
  by (simp add: lib0_def)

lemma length_rice_frame: "length rice_frame = 200"
  by (simp add: rice_frame_def daily_frame_def)

lemma st0_rice: "historical_data st0 ''Rice'' = Some rice_frame"
  by (simp add: st0_def)

lemma rice_rows: "100 \<le> length (dropna (feature_table rice_frame))"
  by (simp add: length_dropna_feature_table length_rice_frame)

lemma rice_split:
  "\<exists>sd. prepare_split lib0 (dropna (feature_table rice_frame)) = Inr sd \<and>
     length (sc_mean (the_scaler sd)) = 13 \<and> length (sc_scale (the_scaler sd)) = 13"
proof -
  let ?data = "dropna (feature_table rice_frame)"
  have len: "length ?data = 170"
    by (simp add: length_dropna_feature_table length_rice_frame)
  have rows: "\<And>r. r \<in> set (map fst ?data) \<Longrightarrow> length r = 13"
    by (rule dropna_rows_length)
  have "(34::nat) \<in> set (filter (\<lambda>i. i < 170) [34..<170])" by simp
  then have "filter (\<lambda>i. i < (170::nat)) [34..<170] \<noteq> []" by force
  then have ne: "select_rows (map fst ?data) (fst (split_indices lib0 (length ?data))) \<noteq> []"
    by (simp add: select_rows_def lib0_def len)
  from prepare_split_succeeds[of ?data 13 lib0, OF rows ne] obtain sd where
    sd: "prepare_split lib0 ?data = Inr sd" by blast
  from prepare_split_scaler[of ?data 13 lib0 sd, OF rows sd] sd show ?thesis by blast
qed

lemma st_trained_registry:
  "\<exists>m sc. models st_trained ''Rice'' = Some m \<and> scalers st_trained ''Rice'' = Some sc \<and>
     length (sc_mean sc) = 13 \<and> length (sc_scale sc) = 13 \<and>
     historical_data st_trained ''Rice'' = Some rice_frame"
proof -
  from rice_split obtain sd where
    sd: "prepare_split lib0 (dropna (feature_table rice_frame)) = Inr sd"
    "length (sc_mean (the_scaler sd)) = 13" "length (sc_scale (the_scaler sd)) = 13" by blast
  from candidates_succeed[of lib0 sd] lib0_total obtain cs where
    cs: "map (evaluate lib0 sd) candidate_names = map Inr cs" by blast
  from train_crop_model_result[OF st0_rice rice_rows sd(1) cs] obtain i where
    "train_crop_model lib0 st0 ''Rice'' =
       st0\<lparr>models := (models st0)(''Rice'' \<mapsto> fst (cs ! i)),
           scalers := (scalers st0)(''Rice'' \<mapsto> the_scaler sd)\<rparr>" by blast
  then show ?thesis using sd(2,3) st0_rice by (simp add: st_trained_def)
qed

section \<open>The claims\<close>

text \<open>
  C4. Every prediction that \<open>predict_price\<close> returns has a confidence between 0.5 and
  0.95, and the base confidence (the value before the random term is added and the sum
  is clamped) does not decrease when the historical series gets longer.
\<close>

theorem confidence_in_range:
  "(predict_price L st c d0 now rnd = Inr p \<longrightarrow>
      0.5 \<le> confidence p \<and> confidence p \<le> 0.95) \<and>
   (n \<le> m \<longrightarrow> base_confidence n \<le> base_confidence m)"
proof (intro conjI impI)
  assume "predict_price L st c d0 now rnd = Inr p"
  from predict_price_confidence[OF this] obtain df where
    "historical_data st c = Some df"
    "confidence p = max 0.5 (min 0.95 (base_confidence (length df) + normal_0_005 rnd))"
    by blast
  then show "0.5 \<le> confidence p" "confidence p \<le> 0.95" using clamp_range by simp_all
next
  assume "n \<le> m"
  then show "base_confidence n \<le> base_confidence m" by (rule base_confidence_mono)
qed

theorem confidence_in_range_witness:
  "\<exists>p. predict_price lib0 st_trained ''Rice'' (Some day0) day0 rnd0 = Inr p \<and>
     0.5 \<le> confidence p \<and> confidence p \<le> 0.95 \<and>
     base_confidence 200 \<le> base_confidence 1827"
proof -
  from st_trained_registry obtain m sc where r:
    "models st_trained ''Rice'' = Some m" "scalers st_trained ''Rice'' = Some sc"
    "length (sc_mean sc) = 13" "length (sc_scale sc) = 13"
    "historical_data st_trained ''Rice'' = Some rice_frame" by blast
  from predict_price_succeeds[OF r(1) r(5) r(2) r(3) r(4), of lib0 day0 day0 rnd0] lib0_total
  obtain p where p: "predict_price lib0 st_trained ''Rice'' (Some day0) day0 rnd0 = Inr p"
    by blast
  from confidence_in_range[of lib0 st_trained "''Rice''" "Some day0" day0 rnd0 p 200 1827] p
  show ?thesis by simp
qed

lemma prepare_split_fields:
  assumes "prepare_split L data = Inr sd"
  shows "X_train sd = select_rows (map fst data) (fst (split_indices L (length data))) \<and>
     X_test sd = select_rows (map fst data) (snd (split_indices L (length data))) \<and>
     y_train sd = select_rows (map snd data) (fst (split_indices L (length data))) \<and>
     y_test sd = select_rows (map snd data) (snd (split_indices L (length data))) \<and>
     fit_scaler (X_train sd) = Inr (the_scaler sd) \<and>
     map_err (transform (the_scaler sd)) (X_train sd) = Inr (X_train_scaled sd) \<and>
     map_err (transform (the_scaler sd)) (X_test sd) = Inr (X_test_scaled sd)"
  using assms unfolding prepare_split_def Let_def length_map
  by (auto simp: bind_err_Inr_iff)

lemma evaluate_Inr:
  assumes "evaluate L sd k = Inr (m, s)"
  shows "\<exists>y_pred.
     m = Fitted k (if k = linear_regression then X_train_scaled sd else X_train sd) (y_train sd) \<and>
     map_err (predict L m) (if k = linear_regression then X_test_scaled sd else X_test sd)
       = Inr y_pred \<and>
     s = r2_score (y_test sd) y_pred"
  using assms by (auto simp: evaluate_def Let_def bind_err_Inr_iff split: if_splits)

lemma select_loop_raises:
  "\<exists>k\<in>set names. isl (evaluate L sd k) \<Longrightarrow> isl (select_loop L sd names best)"
proof (induction names arbitrary: best)
  case Nil
  then show ?case by simp
next
  case (Cons n names)
  obtain bm bs where best: "best = (bm, bs)" by (cases best)
  show ?case
  proof (cases "evaluate L sd n")
    case (Inl e)
    then show ?thesis by (simp add: best)
  next
    case (Inr ms)
    with Cons.prems have "\<exists>k\<in>set names. isl (evaluate L sd k)" by auto
    from Cons.IH[OF this] Inr show ?thesis by (simp add: best split: prod.splits)
  qed
qed

lemma train_raises_split:
  "historical_data st c = Some df \<Longrightarrow> prepare_split L (dropna (feature_table df)) = Inl e \<Longrightarrow>
     train_crop_model L st c = st"
  by (simp add: train_crop_model_def Let_def)

lemma train_raises_evaluate:
  assumes "historical_data st c = Some df"
    and "prepare_split L (dropna (feature_table df)) = Inr sd"
    and "\<exists>k\<in>set candidate_names. isl (evaluate L sd k)"
  shows "train_crop_model L st c = st"
proof -
  from select_loop_raises[OF assms(3), of "(None, NInf)"] obtain e where
    "select_loop L sd candidate_names (None, NInf) = Inl e"
    by (cases "select_loop L sd candidate_names (None, NInf)") auto
  then show ?thesis by (simp add: train_crop_model_def Let_def assms(1,2))
qed

lemma candidates_described:
  assumes "map (evaluate L sd) candidate_names = map Inr cs"
  shows "length cs = 3 \<and>
     (\<forall>j<3. \<exists>y_pred.
        fst (cs ! j) = Fitted (candidate_names ! j)
          (if candidate_names ! j = linear_regression then X_train_scaled sd else X_train sd)
          (y_train sd) \<and>
        map_err (predict L (fst (cs ! j)))
          (if candidate_names ! j = linear_regression then X_test_scaled sd else X_test sd)
          = Inr y_pred \<and>
        snd (cs ! j) = r2_score (y_test sd) y_pred)"
proof -
  from assms have len: "length cs = 3"
    by (metis length_map candidate_names_def length_Cons list.size(3) numeral_3_eq_3)
  have "\<exists>y_pred.
        fst (cs ! j) = Fitted (candidate_names ! j)
          (if candidate_names ! j = linear_regression then X_train_scaled sd else X_train sd)
          (y_train sd) \<and>
        map_err (predict L (fst (cs ! j)))
          (if candidate_names ! j = linear_regression then X_test_scaled sd else X_test sd)
          = Inr y_pred \<and>
        snd (cs ! j) = r2_score (y_test sd) y_pred" if "j < 3" for j
  proof -
    from that len have j: "j < length candidate_names" "j < length cs"
      by (simp_all add: candidate_names_def)
    have "map (evaluate L sd) candidate_names ! j = map Inr cs ! j" using assms by simp
    with j have "evaluate L sd (candidate_names ! j) = Inr (cs ! j)" by simp
    then have "evaluate L sd (candidate_names ! j) = Inr (fst (cs ! j), snd (cs ! j))" by simp
    from evaluate_Inr[OF this] show ?thesis .
  qed
  with len show ?thesis by blast
qed

text \<open>
  C1. For a crop with at least 100 feature rows free of missing cells,
  \<open>train_crop_model\<close> splits the rows, fits the scaler on the training partition and
  evaluates the candidates in the order random forest, gradient boosting, linear
  regression: each is fitted on the training rows (the scaled ones for the linear
  regression) and its score is \<open>r2_score\<close> of the test targets against its predictions
  on the test rows. When the library raises in the split, the scaling or an evaluation,
  the object is left as it was. Otherwise the stored model is an evaluated candidate
  whose score no other candidate exceeds and that is the first with that score, and the
  stored scaler is the one fitted on the training partition.
\<close>

theorem train_stores_first_max_r2:
  assumes "historical_data st c = Some df"
    and "100 \<le> length (dropna (feature_table df))"
  shows "candidate_names = [random_forest, gradient_boosting, linear_regression] \<and>
     (\<forall>e. prepare_split L (dropna (feature_table df)) = Inl e \<longrightarrow>
          train_crop_model L st c = st) \<and>
     (\<forall>sd. prepare_split L (dropna (feature_table df)) = Inr sd \<longrightarrow>
        X_train sd = select_rows (map fst (dropna (feature_table df)))
                       (fst (split_indices L (length (dropna (feature_table df))))) \<and>
        X_test sd = select_rows (map fst (dropna (feature_table df)))
                       (snd (split_indices L (length (dropna (feature_table df))))) \<and>
        y_train sd = select_rows (map snd (dropna (feature_table df)))
                       (fst (split_indices L (length (dropna (feature_table df))))) \<and>
        y_test sd = select_rows (map snd (dropna (feature_table df)))
                       (snd (split_indices L (length (dropna (feature_table df))))) \<and>
        fit_scaler (X_train sd) = Inr (the_scaler sd) \<and>
        map_err (transform (the_scaler sd)) (X_train sd) = Inr (X_train_scaled sd) \<and>
        map_err (transform (the_scaler sd)) (X_test sd) = Inr (X_test_scaled sd) \<and>
        ((\<exists>k\<in>set candidate_names. isl (evaluate L sd k)) \<longrightarrow>
           train_crop_model L st c = st) \<and>
        (\<forall>cs. map (evaluate L sd) candidate_names = map Inr cs \<longrightarrow>
           length cs = 3 \<and>
           (\<forall>j<3. \<exists>y_pred.
              fst (cs ! j) = Fitted (candidate_names ! j)
                (if candidate_names ! j = linear_regression
                 then X_train_scaled sd else X_train sd) (y_train sd) \<and>
              map_err (predict L (fst (cs ! j)))
                (if candidate_names ! j = linear_regression
                 then X_test_scaled sd else X_test sd) = Inr y_pred \<and>
              snd (cs ! j) = r2_score (y_test sd) y_pred) \<and>
           (\<exists>i<3.
              models (train_crop_model L st c) c = Some (fst (cs ! i)) \<and>
              scalers (train_crop_model L st c) c = Some (the_scaler sd) \<and>
              (\<forall>j<3. snd (cs ! j) \<le> snd (cs ! i)) \<and>
              (\<forall>j<i. snd (cs ! j) < snd (cs ! i)))))"
proof (intro conjI allI impI)
  show "candidate_names = [random_forest, gradient_boosting, linear_regression]"
    by (rule candidate_names_def)
next
  fix e assume "prepare_split L (dropna (feature_table df)) = Inl e"
  then show "train_crop_model L st c = st" by (rule train_raises_split[OF assms(1)])
next
  fix sd assume sd: "prepare_split L (dropna (feature_table df)) = Inr sd"
  note f = prepare_split_fields[OF sd]
  show "X_train sd = select_rows (map fst (dropna (feature_table df)))
                       (fst (split_indices L (length (dropna (feature_table df)))))"
    "X_test sd = select_rows (map fst (dropna (feature_table df)))
                       (snd (split_indices L (length (dropna (feature_table df)))))"
    "y_train sd = select_rows (map snd (dropna (feature_table df)))
                       (fst (split_indices L (length (dropna (feature_table df)))))"
    "y_test sd = select_rows (map snd (dropna (feature_table df)))
                       (snd (split_indices L (length (dropna (feature_table df)))))"
    "fit_scaler (X_train sd) = Inr (the_scaler sd)"
    "map_err (transform (the_scaler sd)) (X_train sd) = Inr (X_train_scaled sd)"
    "map_err (transform (the_scaler sd)) (X_test sd) = Inr (X_test_scaled sd)"
    using f by blast+
  {
    assume "\<exists>k\<in>set candidate_names. isl (evaluate L sd k)"
    then show "train_crop_model L st c = st" by (rule train_raises_evaluate[OF assms(1) sd])
  }
  fix cs assume cs: "map (evaluate L sd) candidate_names = map Inr cs"
  note d = candidates_described[OF cs]
  from d show "length cs = 3" by blast
  {
    fix j :: nat assume "j < 3"
    with d show "\<exists>y_pred.
              fst (cs ! j) = Fitted (candidate_names ! j)
                (if candidate_names ! j = linear_regression
                 then X_train_scaled sd else X_train sd) (y_train sd) \<and>
              map_err (predict L (fst (cs ! j)))
                (if candidate_names ! j = linear_regression
                 then X_test_scaled sd else X_test sd) = Inr y_pred \<and>
              snd (cs ! j) = r2_score (y_test sd) y_pred" by blast
  }
  from d have len: "length cs = 3" by blast
  from train_crop_model_result[OF assms sd cs] obtain i where i: "i < length cs"
    "train_crop_model L st c =
       st\<lparr>models := (models st)(c \<mapsto> fst (cs ! i)),
          scalers := (scalers st)(c \<mapsto> the_scaler sd)\<rparr>"
    "\<forall>j<length cs. snd (cs ! j) \<le> snd (cs ! i)" "\<forall>j<i. snd (cs ! j) < snd (cs ! i)"
    by blast
  show "\<exists>i<3.
              models (train_crop_model L st c) c = Some (fst (cs ! i)) \<and>
              scalers (train_crop_model L st c) c = Some (the_scaler sd) \<and>
              (\<forall>j<3. snd (cs ! j) \<le> snd (cs ! i)) \<and>
              (\<forall>j<i. snd (cs ! j) < snd (cs ! i))"
    using i len by (intro exI[of _ i]) simp
qed

theorem train_stores_first_max_r2_witness:
  "\<exists>sd cs i. prepare_split lib0 (dropna (feature_table rice_frame)) = Inr sd \<and>
     map (evaluate lib0 sd) candidate_names = map Inr cs \<and> length cs = 3 \<and> i < 3 \<and>
     fst (cs ! 0) = Fitted random_forest (X_train sd) (y_train sd) \<and>
     fst (cs ! 2) = Fitted linear_regression (X_train_scaled sd) (y_train sd) \<and>
     models (train_crop_model lib0 st0 ''Rice'') ''Rice'' = Some (fst (cs ! i)) \<and>
     scalers (train_crop_model lib0 st0 ''Rice'') ''Rice'' = Some (the_scaler sd) \<and>
     snd (cs ! 0) \<le> snd (cs ! i) \<and> snd (cs ! 1) \<le> snd (cs ! i) \<and>
     snd (cs ! 2) \<le> snd (cs ! i)"
proof -
  from rice_split obtain sd where
    sd: "prepare_split lib0 (dropna (feature_table rice_frame)) = Inr sd" by blast
  from candidates_succeed[of lib0 sd] lib0_total obtain cs where
    cs: "map (evaluate lib0 sd) candidate_names = map Inr cs" by blast
  from train_stores_first_max_r2[OF st0_rice rice_rows, of lib0] sd cs
  have len: "length cs = 3"
    and desc: "\<forall>j<3. \<exists>y_pred.
              fst (cs ! j) = Fitted (candidate_names ! j)
                (if candidate_names ! j = linear_regression
                 then X_train_scaled sd else X_train sd) (y_train sd) \<and>
              map_err (predict lib0 (fst (cs ! j)))
                (if candidate_names ! j = linear_regression
                 then X_test_scaled sd else X_test sd) = Inr y_pred \<and>
              snd (cs ! j) = r2_score (y_test sd) y_pred"
    and best: "\<exists>i<3.
              models (train_crop_model lib0 st0 ''Rice'') ''Rice'' = Some (fst (cs ! i)) \<and>
              scalers (train_crop_model lib0 st0 ''Rice'') ''Rice'' = Some (the_scaler sd) \<and>
              (\<forall>j<3. snd (cs ! j) \<le> snd (cs ! i)) \<and>
              (\<forall>j<i. snd (cs ! j) < snd (cs ! i))"
    by blast+
  have c0: "fst (cs ! 0) = Fitted random_forest (X_train sd) (y_train sd)"
    using desc[rule_format, of 0] by (auto simp: candidate_names_def)
  have c2: "fst (cs ! 2) = Fitted linear_regression (X_train_scaled sd) (y_train sd)"
    using desc[rule_format, of 2] by (auto simp: candidate_names_def)
  from best obtain i where i: "i < 3"
    "models (train_crop_model lib0 st0 ''Rice'') ''Rice'' = Some (fst (cs ! i))"
    "scalers (train_crop_model lib0 st0 ''Rice'') ''Rice'' = Some (the_scaler sd)"
    "\<forall>j<3. snd (cs ! j) \<le> snd (cs ! i)" by blast
  from i(4) have "snd (cs ! 0) \<le> snd (cs ! i)" "snd (cs ! 1) \<le> snd (cs ! i)"
    "snd (cs ! 2) \<le> snd (cs ! i)" by simp_all
  with sd cs len c0 c2 i(1-3) show ?thesis by blast
qed

lemma train_skips:
  "historical_data st c = Some df \<Longrightarrow> length (dropna (feature_table df)) < 100 \<Longrightarrow>
     train_crop_model L st c = st"
  by (simp add: train_crop_model_def Let_def)

lemma train_historical_data [simp]:
  "historical_data (train_crop_model L st c) = historical_data st"
  by (auto simp: train_crop_model_def Let_def split: option.splits sum.splits prod.splits)

lemma train_other_models:
  "c \<noteq> c' \<Longrightarrow> models (train_crop_model L st c') c = models st c"
  by (auto simp: train_crop_model_def Let_def split: option.splits sum.splits prod.splits)

lemma foldl_train_historical_data [simp]:
  "historical_data (foldl (train_crop_model L) st cs) = historical_data st"
  by (induction cs arbitrary: st) simp_all

lemma foldl_train_skipped:
  "historical_data st c = Some df \<Longrightarrow> length (dropna (feature_table df)) < 100 \<Longrightarrow>
     models st c = None \<Longrightarrow> models (foldl (train_crop_model L) st cs) c = None"
proof (induction cs arbitrary: st)
  case Nil
  then show ?case by simp
next
  case (Cons c' cs)
  have "models (train_crop_model L st c') c = None"
  proof (cases "c = c'")
    case True
    with Cons.prems show ?thesis using train_skips[of st c df L] by simp
  next
    case False
    with Cons.prems show ?thesis by (simp add: train_other_models)
  qed
  with Cons.IH[of "train_crop_model L st c'"] Cons.prems show ?case by simp
qed

lemma predict_no_model:
  "models st c = None \<Longrightarrow> (d0 = None \<longrightarrow> 0 \<le> ordinal now \<and> ordinal now < max_ordinal) \<Longrightarrow>
     predict_price L st c d0 now rnd = Inl ModelUnavailable"
  by (cases d0) (simp_all add: predict_price_def add_days_def)

lemma predict_default_overflow:
  "max_ordinal \<le> ordinal now \<Longrightarrow> predict_price L st c None now rnd = Inl OverflowError"
  by (simp add: predict_price_def add_days_def)

lemma short_rice_rows: "length (dropna (feature_table short_rice_frame)) < 100"
  by (simp add: length_dropna_feature_table short_rice_frame_def daily_frame_def)

lemma st_stale_registry:
  "\<exists>m sc. models st_stale ''Rice'' = Some m \<and> scalers st_stale ''Rice'' = Some sc \<and>
     length (sc_mean sc) = 13 \<and> length (sc_scale sc) = 13 \<and>
     historical_data st_stale ''Rice'' = Some short_rice_frame"
proof -
  from st_trained_registry obtain m sc where
    "models st_trained ''Rice'' = Some m" "scalers st_trained ''Rice'' = Some sc"
    "length (sc_mean sc) = 13" "length (sc_scale sc) = 13" by blast
  then show ?thesis by (simp add: st_stale_def)
qed

text \<open>
  C2. As stated the claim fails. The registry of \<open>st_stale\<close> holds a model for rice
  while its rice series has only 40 rows, 10 of them without a missing cell. Training
  is skipped and leaves the object as it is, so the crop is still in the registry and
  \<open>predict_price\<close> returns a price instead of raising.
\<close>

theorem skipped_training_keeps_model_counterexample:
  "historical_data st_stale ''Rice'' = Some short_rice_frame \<and>
   length (dropna (feature_table short_rice_frame)) < 100 \<and>
   train_crop_model lib0 st_stale ''Rice'' = st_stale \<and>
   models (train_crop_model lib0 st_stale ''Rice'') ''Rice'' \<noteq> None \<and>
   \<not> isl (predict_price lib0 (train_crop_model lib0 st_stale ''Rice'') ''Rice''
            (Some day0) day0 rnd0)"
proof -
  from st_stale_registry obtain m sc where r:
    "models st_stale ''Rice'' = Some m" "scalers st_stale ''Rice'' = Some sc"
    "length (sc_mean sc) = 13" "length (sc_scale sc) = 13"
    "historical_data st_stale ''Rice'' = Some short_rice_frame" by blast
  have t: "train_crop_model lib0 st_stale ''Rice'' = st_stale"
    by (rule train_skips[OF r(5) short_rice_rows])
  from predict_price_succeeds[OF r(1) r(5) r(2) r(3) r(4), of lib0 day0 day0 rnd0] lib0_total
  obtain p where "predict_price lib0 st_stale ''Rice'' (Some day0) day0 rnd0 = Inr p"
    by blast
  with t r(1) r(5) short_rice_rows show ?thesis by simp
qed

text \<open>
  C2, amended. When fewer than 100 feature rows of a crop are free of missing cells,
  \<open>train_crop_model\<close> returns the object unchanged: no registry entry is modified,
  the crop's own included. A model the registry held for the crop before stays there.
  A crop that had no model before has none afterwards, also after
  \<open>load_historical_data\<close> has trained every crop of the frames; \<open>predict_price\<close> on
  such a crop raises the "no model available" error when a date is passed or the clock
  is before the last day of the calendar, and \<^verbatim>\<open>OverflowError\<close> when no date is
  passed on that last day, because the default date is computed first.
\<close>

theorem skipped_training_leaves_object:
  assumes "length (dropna (feature_table df)) < 100"
  shows "(historical_data st c = Some df \<longrightarrow>
            train_crop_model L st c = st \<and>
            (models st c = Some m \<longrightarrow> models (train_crop_model L st c) c = Some m) \<and>
            (models st c = None \<longrightarrow>
               models (train_crop_model L st c) c = None \<and>
               predict_price L (train_crop_model L st c) c (Some d) now rnd
                 = Inl ModelUnavailable \<and>
               (0 \<le> ordinal now \<and> ordinal now < max_ordinal \<longrightarrow>
                  predict_price L (train_crop_model L st c) c None now rnd
                    = Inl ModelUnavailable) \<and>
               (max_ordinal \<le> ordinal now \<longrightarrow>
                  predict_price L (train_crop_model L st c) c None now rnd
                    = Inl OverflowError))) \<and>
         (map_of frames c = Some df \<and> models st c = None \<longrightarrow>
            models (load_historical_data L st frames) c = None \<and>
            predict_price L (load_historical_data L st frames) c (Some d) now rnd
              = Inl ModelUnavailable)"
proof (intro conjI impI)
  assume df: "historical_data st c = Some df"
  show t: "train_crop_model L st c = st" using train_skips[OF df assms] .
  {
    assume "models st c = Some m"
    then show "models (train_crop_model L st c) c = Some m" by (simp add: t)
  }
  assume none: "models st c = None"
  then show "models (train_crop_model L st c) c = None" by (simp add: t)
  show "predict_price L (train_crop_model L st c) c (Some d) now rnd = Inl ModelUnavailable"
    using predict_no_model[OF none, of "Some d"] by (simp add: t)
  {
    assume "0 \<le> ordinal now \<and> ordinal now < max_ordinal"
    then show "predict_price L (train_crop_model L st c) c None now rnd = Inl ModelUnavailable"
      using predict_no_model[OF none, of None now] by (simp add: t)
  }
  assume "max_ordinal \<le> ordinal now"
  then show "predict_price L (train_crop_model L st c) c None now rnd = Inl OverflowError"
    by (rule predict_default_overflow)
next
  assume a: "map_of frames c = Some df \<and> models st c = None"
  then show m: "models (load_historical_data L st frames) c = None"
    unfolding load_historical_data_def
    using foldl_train_skipped[of "st\<lparr>historical_data := map_of frames\<rparr>" c df L "map fst frames"]
      assms by simp
  show "predict_price L (load_historical_data L st frames) c (Some d) now rnd
      = Inl ModelUnavailable"
    using predict_no_model[OF m, of "Some d"] by simp
qed

lemma saffron_rows: "length (dropna (feature_table saffron_frame)) < 100"
  by (simp add: length_dropna_feature_table saffron_frame_def daily_frame_def)

theorem skipped_training_leaves_object_witness:
  "train_crop_model lib0 st_saffron ''Saffron'' = st_saffron \<and>
   models (train_crop_model lib0 st_saffron ''Saffron'') ''Saffron'' = None \<and>
   predict_price lib0 (train_crop_model lib0 st_saffron ''Saffron'') ''Saffron'' (Some day0)
       day0 rnd0 = Inl ModelUnavailable \<and>
   predict_price lib0 (train_crop_model lib0 st_saffron ''Saffron'') ''Saffron'' None day0 rnd0
     = Inl ModelUnavailable \<and>
   models (load_historical_data lib0 st_saffron [(''Saffron'', saffron_frame)]) ''Saffron'' = None"
proof -
  have h1: "historical_data st_saffron ''Saffron'' = Some saffron_frame"
    by (simp add: st_saffron_def)
  have h2: "models st_saffron ''Saffron'' = None" by (simp add: st_saffron_def)
  have h3: "map_of [(''Saffron'', saffron_frame)] ''Saffron'' = Some saffron_frame" by simp
  have h4: "0 \<le> ordinal day0 \<and> ordinal day0 < max_ordinal"
    by (simp add: day0_def max_ordinal_def)
  from skipped_training_leaves_object[OF saffron_rows, of st_saffron "''Saffron''" lib0
      "Fitted linear_regression [] []" day0 day0 rnd0 "[(''Saffron'', saffron_frame)]"]
    h1 h2 h3 h4
  show ?thesis by blast
qed

lemma add_price_data_fields [simp]:
  "historical_data (add_price_data st pd ok) = historical_data st"
  "models (add_price_data st pd ok) = models st"
  "scalers (add_price_data st pd ok) = scalers st"
  by (simp_all add: add_price_data_def)

lemma predict_price_frame:
  "historical_data st' = historical_data st \<Longrightarrow> models st' = models st \<Longrightarrow>
     scalers st' = scalers st \<Longrightarrow>
     predict_price L st' c d0 now rnd = predict_price L st c d0 now rnd"
  by (simp add: predict_price_def prepare_prediction_features_def calculate_confidence_def
      analyze_prediction_factors_def cong: if_cong)

lemma forecast_loop_frame:
  "historical_data st' = historical_data st \<Longrightarrow> models st' = models st \<Longrightarrow>
     scalers st' = scalers st \<Longrightarrow>
     forecast_loop L st' c clock rnd i k = forecast_loop L st c clock rnd i k"
  by (induction k arbitrary: i) (simp_all add: predict_price_frame[of st' st])

text \<open>
  C10. \<open>add_price_data\<close> leaves the historical series, the models and the scalers as
  they were, so every later \<open>predict_price\<close> and \<open>get_price_forecast\<close> returns what it
  would have returned without the call (for the same clock readings and random draws).
\<close>

theorem add_price_data_no_effect:
  "historical_data (add_price_data st pd ok) = historical_data st \<and>
   models (add_price_data st pd ok) = models st \<and>
   scalers (add_price_data st pd ok) = scalers st \<and>
   predict_price L (add_price_data st pd ok) c d0 now rnd = predict_price L st c d0 now rnd \<and>
   get_price_forecast L (add_price_data st pd ok) c days clock rnds
     = get_price_forecast L st c days clock rnds"
  by (simp add: get_price_forecast_def predict_price_frame[of "add_price_data st pd ok" st]
      forecast_loop_frame[of "add_price_data st pd ok" st])

theorem add_price_data_no_effect_witness:
  "historical_data (add_price_data st_trained rice_report True) = historical_data st_trained \<and>
   models (add_price_data st_trained rice_report True) = models st_trained \<and>
   scalers (add_price_data st_trained rice_report True) = scalers st_trained \<and>
   predict_price lib0 (add_price_data st_trained rice_report True) ''Rice'' (Some day0) day0 rnd0
     = predict_price lib0 st_trained ''Rice'' (Some day0) day0 rnd0 \<and>
   get_price_forecast lib0 (add_price_data st_trained rice_report True) ''Rice'' 7
       (\<lambda>i. day0) (\<lambda>i. rnd0)
     = get_price_forecast lib0 st_trained ''Rice'' 7 (\<lambda>i. day0) (\<lambda>i. rnd0) \<and>
   market_prices (add_price_data st_trained rice_report True) \<noteq> market_prices st_trained"
  using add_price_data_no_effect[of st_trained rice_report True lib0 "''Rice''" "Some day0" day0
      rnd0 7 "\<lambda>i. day0" "\<lambda>i. rnd0"]
  by (simp add: add_price_data_def)

text \<open>
  C9. As stated the claim fails: a stored object that answers \<^verbatim>\<open>['models']\<close> but
  not \<^verbatim>\<open>['scalers']\<close> replaces the models of the registry although the load does
  not complete, and the call returns normally.
\<close>

theorem load_partial_overwrite_counterexample:
  "a_scalers models_only = None \<and>
   models (load_models st_trained [''models.pkl'' \<mapsto> models_only] ''models.pkl'') ''Rice''
     \<noteq> models st_trained ''Rice''"
proof -
  from st_trained_registry obtain m where "models st_trained ''Rice'' = Some m" by blast
  then show ?thesis by (simp add: load_models_def models_only_def)
qed

text \<open>
  C9, amended. \<open>load_models\<close> never raises. When \<^verbatim>\<open>joblib.load\<close> raises or the
  loaded object does not answer \<^verbatim>\<open>['models']\<close>, the object is left exactly as it
  was. Otherwise the answers obtained before the first subscript that raises are
  assigned: \<^verbatim>\<open>models\<close> alone when \<^verbatim>\<open>['scalers']\<close> raises, \<^verbatim>\<open>models\<close> and
  \<^verbatim>\<open>scalers\<close> when only \<^verbatim>\<open>['label_encoders']\<close> raises, and all three when
  none does. The historical series are never touched.
\<close>

theorem load_models_effect:
  "((files p = None \<or> (\<exists>d. files p = Some d \<and> a_models d = None))
      \<longrightarrow> load_models st files p = st) \<and>
   (files p = Some d \<and> a_models d = Some ms \<and> a_scalers d = None
      \<longrightarrow> load_models st files p = st\<lparr>models := ms\<rparr>) \<and>
   (files p = Some d \<and> a_models d = Some ms \<and> a_scalers d = Some scs \<and>
      a_label_encoders d = None
      \<longrightarrow> load_models st files p = st\<lparr>models := ms, scalers := scs\<rparr>) \<and>
   (files p = Some d \<and> a_models d = Some ms \<and> a_scalers d = Some scs \<and>
      a_label_encoders d = Some les
      \<longrightarrow> load_models st files p = st\<lparr>models := ms, scalers := scs, label_encoders := les\<rparr>) \<and>
   historical_data (load_models st files p) = historical_data st"
  by (auto simp: load_models_def Let_def split: option.splits)

theorem load_models_effect_witness:
  "load_models st_trained Map.empty ''models.pkl'' = st_trained \<and>
   load_models st_trained [''models.pkl'' \<mapsto> models_only] ''models.pkl''
     = st_trained\<lparr>models := Map.empty\<rparr> \<and>
   historical_data (load_models st_trained [''models.pkl'' \<mapsto> models_only] ''models.pkl'')
     = historical_data st_trained"
  using load_models_effect[of Map.empty "''models.pkl''" st_trained]
    load_models_effect[of "[''models.pkl'' \<mapsto> models_only]" "''models.pkl''" st_trained
      models_only Map.empty]
  by (simp add: models_only_def)

lemma predict_price_Inr_iff:
  "predict_price L st c d0 now rnd = Inr p \<longleftrightarrow>
     (\<exists>d f m sc fs v conf facs rc.
        (case d0 of None \<Rightarrow> add_days now 1 | Some d \<Rightarrow> Inr d) = Inr d \<and>
        models st c = Some m \<and> prepare_prediction_features st c d = Inr f \<and>
        scalers st c = Some sc \<and> transform sc f = Inr fs \<and> predict L m fs = Inr v \<and>
        calculate_confidence st c (normal_0_005 rnd) = Inr conf \<and>
        analyze_prediction_factors st c d (uniform_08_12 rnd) (uniform_09_11 rnd) = Inr facs \<and>
        generate_price_recommendation c v facs = Inr rc \<and>
        p = \<lparr>p_crop_name = c, predicted_price = py_round2 v, confidence = conf,
             prediction_date = d, factors = facs, recommendation = rc\<rparr>)"
  by (auto simp: predict_price_def bind_err_Inr_iff lookup_Inr_iff split: if_splits)

lemma analyze_draws:
  "analyze_prediction_factors st c d u1 u2 = Inr facs \<Longrightarrow>
     analyze_prediction_factors st c d u1' u2' =
       Inr (take 3 facs @ [(''supply_pressure'', Fin u1'), (''demand_pressure'', Fin u2')])"
  by (auto simp: analyze_prediction_factors_def bind_err_Inr_iff Let_def)

lemma analyze_shape:
  "analyze_prediction_factors st c d u1 u2 = Inr facs \<Longrightarrow>
     \<exists>s t v. facs = [(''seasonal_demand'', s), (''price_trend'', t), (''market_volatility'', v),
                     (''supply_pressure'', Fin u1), (''demand_pressure'', Fin u2)]"
  by (auto simp: analyze_prediction_factors_def bind_err_Inr_iff Let_def)

lemma recommendation_draws:
  "generate_price_recommendation c x
        [(''seasonal_demand'', s), (''price_trend'', t),
         (''market_volatility'', v), (''supply_pressure'', a), (''demand_pressure'', b)]
   = generate_price_recommendation c x
        [(''seasonal_demand'', s), (''price_trend'', t),
         (''market_volatility'', v), (''supply_pressure'', a'), (''demand_pressure'', b')]"
  by (simp add: generate_price_recommendation_def)

lemma confidence_draws:
  "calculate_confidence st c z = Inr conf \<Longrightarrow>
     \<exists>df. historical_data st c = Some df \<and>
       calculate_confidence st c z' = Inr (max 0.5 (min 0.95 (base_confidence (length df) + z')))"
  by (auto simp: calculate_confidence_def bind_err_Inr_iff lookup_Inr_iff)

lemma predict_price_draws:
  assumes "predict_price L st c d0 now r1 = Inr p1"
  shows "\<exists>df. historical_data st c = Some df \<and>
     predict_price L st c d0 now r2 =
       Inr (p1\<lparr>confidence := max 0.5 (min 0.95 (base_confidence (length df) + normal_0_005 r2)),
               factors := take 3 (factors p1) @
                 [(''supply_pressure'', Fin (uniform_08_12 r2)),
                  (''demand_pressure'', Fin (uniform_09_11 r2))]\<rparr>)"
proof -
  from assms[unfolded predict_price_Inr_iff] obtain d f m sc fs v conf facs rc where h:
    "(case d0 of None \<Rightarrow> add_days now 1 | Some d \<Rightarrow> Inr d) = Inr d"
    "models st c = Some m" "prepare_prediction_features st c d = Inr f"
    "scalers st c = Some sc" "transform sc f = Inr fs" "predict L m fs = Inr v"
    "calculate_confidence st c (normal_0_005 r1) = Inr conf"
    "analyze_prediction_factors st c d (uniform_08_12 r1) (uniform_09_11 r1) = Inr facs"
    "generate_price_recommendation c v facs = Inr rc"
    "p1 = \<lparr>p_crop_name = c, predicted_price = py_round2 v, confidence = conf,
             prediction_date = d, factors = facs, recommendation = rc\<rparr>"
    by blast
  from confidence_draws[OF h(7), of "normal_0_005 r2"] obtain df where df:
    "historical_data st c = Some df"
    "calculate_confidence st c (normal_0_005 r2)
       = Inr (max 0.5 (min 0.95 (base_confidence (length df) + normal_0_005 r2)))" by blast
  define facs2 where "facs2 = take 3 facs @
     [(''supply_pressure'', Fin (uniform_08_12 r2)), (''demand_pressure'', Fin (uniform_09_11 r2))]"
  have a2: "analyze_prediction_factors st c d (uniform_08_12 r2) (uniform_09_11 r2) = Inr facs2"
    unfolding facs2_def by (rule analyze_draws[OF h(8)])
  from analyze_shape[OF h(8)] obtain s t vo where facs:
    "facs = [(''seasonal_demand'', s), (''price_trend'', t), (''market_volatility'', vo),
             (''supply_pressure'', Fin (uniform_08_12 r1)),
             (''demand_pressure'', Fin (uniform_09_11 r1))]" by blast
  have facs2: "facs2 = [(''seasonal_demand'', s), (''price_trend'', t), (''market_volatility'', vo),
             (''supply_pressure'', Fin (uniform_08_12 r2)),
             (''demand_pressure'', Fin (uniform_09_11 r2))]"
    by (simp add: facs2_def facs)
  have rc2: "generate_price_recommendation c v facs2 = Inr rc"
  proof -
    have "generate_price_recommendation c v facs2 = generate_price_recommendation c v facs"
      unfolding facs facs2 by (rule recommendation_draws)
    with h(9) show ?thesis by simp
  qed
  have "predict_price L st c d0 now r2 =
      Inr \<lparr>p_crop_name = c, predicted_price = py_round2 v,
           confidence = max 0.5 (min 0.95 (base_confidence (length df) + normal_0_005 r2)),
           prediction_date = d, factors = facs2, recommendation = rc\<rparr>"
    by (simp add: predict_price_def h(1-6) df(2) a2 rc2)
  then show ?thesis using df(1) h(10) by (simp add: facs2_def)
qed

lemma predict_price_factors_length:
  "predict_price L st c d0 now rnd = Inr p \<Longrightarrow> length (factors p) = 5"
  unfolding predict_price_Inr_iff using analyze_shape by fastforce

lemma st_trained_predict:
  "\<exists>p. predict_price lib0 st_trained ''Rice'' (Some d) now rnd = Inr p \<and>
     confidence p = max 0.5 (min 0.95 (base_confidence 200 + normal_0_005 rnd))"
proof -
  from st_trained_registry obtain m sc where r:
    "models st_trained ''Rice'' = Some m" "scalers st_trained ''Rice'' = Some sc"
    "length (sc_mean sc) = 13" "length (sc_scale sc) = 13"
    "historical_data st_trained ''Rice'' = Some rice_frame" by blast
  from predict_price_succeeds[OF r(1) r(5) r(2) r(3) r(4), of lib0 d now rnd] lib0_total
  obtain p where p: "predict_price lib0 st_trained ''Rice'' (Some d) now rnd = Inr p"
    by blast
  from predict_price_confidence[OF p] r(5) length_rice_frame p show ?thesis by auto
qed

text \<open>
  C3. As stated the claim fails: two calls on the same object, crop and date return
  different predictions when the random generator hands out different values; here the
  confidence is 0.65 in one call and 0.70 in the other.
\<close>

theorem predict_not_deterministic_counterexample:
  "predict_price lib0 st_trained ''Rice'' (Some day0) day0 rnd0
     \<noteq> predict_price lib0 st_trained ''Rice'' (Some day0) day0 rnd1"
proof -
  from st_trained_predict[of day0 day0 rnd0] obtain p0 where p0:
    "predict_price lib0 st_trained ''Rice'' (Some day0) day0 rnd0 = Inr p0"
    "confidence p0 = max 0.5 (min 0.95 (base_confidence 200 + normal_0_005 rnd0))" by blast
  from st_trained_predict[of day0 day0 rnd1] obtain p1 where p1:
    "predict_price lib0 st_trained ''Rice'' (Some day0) day0 rnd1 = Inr p1"
    "confidence p1 = max 0.5 (min 0.95 (base_confidence 200 + normal_0_005 rnd1))" by blast
  have "confidence p0 = 0.65" using p0(2) by (simp add: base_confidence_def rnd0_def)
  moreover have "confidence p1 = 0.7" using p1(2) by (simp add: base_confidence_def rnd1_def)
  ultimately have "p0 \<noteq> p1" by auto
  then show ?thesis by (simp add: p0(1) p1(1))
qed

text \<open>
  C3, amended. \<open>predict_price\<close> is a function of the object, the crop, the date and
  the three values drawn from the random generator during the call. When a call
  succeeds, it succeeds for every other draws as well, and the crop name, the predicted
  price, the prediction date, the recommendation and the first three factors (seasonal
  demand, price trend, market volatility) are the same; the confidence is the clamped
  sum of the base confidence and the normal draw, and the supply and demand pressure
  factors are the two uniform draws.
\<close>

theorem predict_deterministic_up_to_draws:
  assumes "predict_price L st c d0 now r1 = Inr p1"
  shows "\<exists>p2 df. predict_price L st c d0 now r2 = Inr p2 \<and>
     historical_data st c = Some df \<and>
     p_crop_name p2 = p_crop_name p1 \<and> predicted_price p2 = predicted_price p1 \<and>
     prediction_date p2 = prediction_date p1 \<and> recommendation p2 = recommendation p1 \<and>
     take 3 (factors p2) = take 3 (factors p1) \<and>
     drop 3 (factors p2) = [(''supply_pressure'', Fin (uniform_08_12 r2)),
                            (''demand_pressure'', Fin (uniform_09_11 r2))] \<and>
     confidence p2 = max 0.5 (min 0.95 (base_confidence (length df) + normal_0_005 r2))"
proof -
  from predict_price_draws[OF assms, of r2] obtain df where df:
    "historical_data st c = Some df"
    "predict_price L st c d0 now r2 =
       Inr (p1\<lparr>confidence := max 0.5 (min 0.95 (base_confidence (length df) + normal_0_005 r2)),
               factors := take 3 (factors p1) @
                 [(''supply_pressure'', Fin (uniform_08_12 r2)),
                  (''demand_pressure'', Fin (uniform_09_11 r2))]\<rparr>)" by blast
  have len: "length (factors p1) = 5" by (rule predict_price_factors_length[OF assms])
  show ?thesis
    by (rule exI[of _ "p1\<lparr>confidence := max 0.5 (min 0.95 (base_confidence (length df) + normal_0_005 r2)),
               factors := take 3 (factors p1) @
                 [(''supply_pressure'', Fin (uniform_08_12 r2)),
                  (''demand_pressure'', Fin (uniform_09_11 r2))]\<rparr>"], rule exI[of _ df])
       (simp add: df len)
qed

theorem predict_deterministic_up_to_draws_witness:
  "\<exists>p1 p2. predict_price lib0 st_trained ''Rice'' (Some day0) day0 rnd0 = Inr p1 \<and>
     predict_price lib0 st_trained ''Rice'' (Some day0) day0 rnd1 = Inr p2 \<and>
     predicted_price p2 = predicted_price p1 \<and> prediction_date p2 = prediction_date p1 \<and>
     recommendation p2 = recommendation p1 \<and> take 3 (factors p2) = take 3 (factors p1) \<and>
     drop 3 (factors p2) = [(''supply_pressure'', Fin 1.1), (''demand_pressure'', Fin 0.95)]"
proof -
  from st_trained_predict[of day0 day0 rnd0] obtain p1 where p1:
    "predict_price lib0 st_trained ''Rice'' (Some day0) day0 rnd0 = Inr p1" by blast
  from predict_deterministic_up_to_draws[OF p1, of rnd1] p1 show ?thesis
    by (auto simp: rnd1_def)
qed

lemma predict_price_date:
  "predict_price L st c (Some d) now rnd = Inr p \<Longrightarrow> prediction_date p = d"
  unfolding predict_price_Inr_iff by auto

lemma forecast_loop_dates:
  "forecast_loop L st c clock rnd i k = Inr ps \<Longrightarrow>
     length ps = k \<and>
     (\<forall>j<k. add_days (clock (i + j)) (int (i + j) + 1) = Inr (prediction_date (ps ! j)))"
proof (induction k arbitrary: i ps)
  case 0
  then show ?case by simp
next
  case (Suc k)
  from Suc.prems obtain d p rest where h:
    "add_days (clock i) (int i + 1) = Inr d"
    "predict_price L st c (Some d) (clock i) (rnd i) = Inr p"
    "forecast_loop L st c clock rnd (Suc i) k = Inr rest" "ps = p # rest"
    by (auto simp: bind_err_Inr_iff)
  from Suc.IH[OF h(3)] have ih: "length rest = k"
    "\<forall>j<k. add_days (clock (Suc i + j)) (int (Suc i + j) + 1) = Inr (prediction_date (rest ! j))"
    by auto
  have "add_days (clock (i + j)) (int (i + j) + 1) = Inr (prediction_date (ps ! j))"
    if "j < Suc k" for j
  proof (cases j)
    case 0
    then show ?thesis using h(1) predict_price_date[OF h(2)] by (simp add: h(4))
  next
    case (Suc j')
    with that have "j' < k" by simp
    with ih(2) have "add_days (clock (Suc i + j')) (int (Suc i + j') + 1)
        = Inr (prediction_date (rest ! j'))" by blast
    then show ?thesis by (simp add: Suc h(4))
  qed
  then show ?case using ih(1) by (simp add: h(4))
qed

lemma forecast_loop_succeeds:
  assumes m: "models st c = Some m" and df: "historical_data st c = Some df"
    and sc: "scalers st c = Some sc"
    and l1: "length (sc_mean sc) = 13" and l2: "length (sc_scale sc) = 13"
    and lib: "\<And>row. length row = 13 \<Longrightarrow> \<exists>v. predict L m row = Inr v"
  shows "(\<forall>j<k. \<exists>d. add_days (clock (i + j)) (int (i + j) + 1) = Inr d) \<Longrightarrow>
     \<exists>ps. forecast_loop L st c clock rnd i k = Inr ps"
proof (induction k arbitrary: i)
  case 0
  then show ?case by simp
next
  case (Suc k)
  from Suc.prems have "\<exists>d. add_days (clock (i + 0)) (int (i + 0) + 1) = Inr d" by blast
  then obtain d where d: "add_days (clock i) (int i + 1) = Inr d" by auto
  from predict_price_succeeds[OF m df sc l1 l2 lib, of d "clock i" "rnd i"] obtain p where
    p: "predict_price L st c (Some d) (clock i) (rnd i) = Inr p" by blast
  have "\<forall>j<k. \<exists>d. add_days (clock (Suc i + j)) (int (Suc i + j) + 1) = Inr d"
  proof (intro allI impI)
    fix j assume "j < k"
    then have "Suc j < Suc k" by simp
    with Suc.prems have "\<exists>d. add_days (clock (i + Suc j)) (int (i + Suc j) + 1) = Inr d"
      by blast
    then show "\<exists>d. add_days (clock (Suc i + j)) (int (Suc i + j) + 1) = Inr d" by simp
  qed
  from Suc.IH[OF this] obtain rest where
    "forecast_loop L st c clock rnd (Suc i) k = Inr rest" by blast
  with d p show ?case by simp
qed

lemma add_days_Inr:
  "1 \<le> ordinal t + k \<Longrightarrow> ordinal t + k \<le> max_ordinal \<Longrightarrow>
     add_days t k = Inr (t\<lparr>ordinal := ordinal t + k\<rparr>)"
  by (simp add: add_days_def)

lemma forecast_characterisation:
  assumes m: "models st c = Some m" and df: "historical_data st c = Some df"
    and sc: "scalers st c = Some sc"
    and l1: "length (sc_mean sc) = 13" and l2: "length (sc_scale sc) = 13"
    and lib: "\<And>row. length row = 13 \<Longrightarrow> \<exists>v. predict L m row = Inr v"
    and range: "\<forall>i<nat days. 1 \<le> ordinal (clock i) + (int i + 1) \<and>
                   ordinal (clock i) + (int i + 1) \<le> max_ordinal"
  shows "\<exists>ps. get_price_forecast L st c days clock rnd = Inr ps \<and> length ps = nat days \<and>
     (\<forall>i<nat days. prediction_date (ps ! i)
          = (clock i)\<lparr>ordinal := ordinal (clock i) + (int i + 1)\<rparr>)"
proof -
  have ad: "add_days (clock i) (int i + 1)
      = Inr ((clock i)\<lparr>ordinal := ordinal (clock i) + (int i + 1)\<rparr>)" if "i < nat days" for i
    using range that add_days_Inr[of "clock i" "int i + 1"] by blast
  then have "\<forall>j<nat days. \<exists>d. add_days (clock (0 + j)) (int (0 + j) + 1) = Inr d"
    by simp
  from forecast_loop_succeeds[OF m df sc l1 l2 lib this] obtain ps where
    ps: "forecast_loop L st c clock rnd 0 (nat days) = Inr ps" by blast
  from forecast_loop_dates[OF ps] have len: "length ps = nat days"
    and dates: "\<forall>j<nat days. add_days (clock (0 + j)) (int (0 + j) + 1)
        = Inr (prediction_date (ps ! j))" by auto
  have "prediction_date (ps ! i) = (clock i)\<lparr>ordinal := ordinal (clock i) + (int i + 1)\<rparr>"
    if "i < nat days" for i
    using dates ad[OF that] that by auto
  with ps len show ?thesis by (simp add: get_price_forecast_def)
qed

text \<open>
  C7. \<open>get_price_forecast\<close> reads the clock anew in every iteration instead of once
  per call. When the first iteration of a two-day forecast runs just before midnight
  and the second just after it, the two prediction dates are two days apart, not one:
  the forecast skips a day.
\<close>

theorem forecast_not_consecutive_counterexample:
  "forecast_dates (get_price_forecast lib0 st_trained ''Rice'' 2 clock_midnight (\<lambda>i. rnd0))
     = Inr [\<lparr>ordinal = 740001, tod = 86399999999\<rparr>, \<lparr>ordinal = 740003, tod = 5\<rparr>]"
proof -
  from st_trained_registry obtain m sc where r:
    "models st_trained ''Rice'' = Some m" "scalers st_trained ''Rice'' = Some sc"
    "length (sc_mean sc) = 13" "length (sc_scale sc) = 13"
    "historical_data st_trained ''Rice'' = Some rice_frame" by blast
  have range: "\<forall>i<nat 2. 1 \<le> ordinal (clock_midnight i) + (int i + 1) \<and>
                   ordinal (clock_midnight i) + (int i + 1) \<le> max_ordinal"
    by (simp add: clock_midnight_def max_ordinal_def)
  from forecast_characterisation[OF r(1) r(5) r(2) r(3) r(4) lib0_total range, of "\<lambda>i. rnd0"]
  obtain ps where ps:
    "get_price_forecast lib0 st_trained ''Rice'' 2 clock_midnight (\<lambda>i. rnd0) = Inr ps"
    "length ps = 2"
    "\<forall>i<nat 2. prediction_date (ps ! i)
          = (clock_midnight i)\<lparr>ordinal := ordinal (clock_midnight i) + (int i + 1)\<rparr>"
    by auto
  from ps(2) obtain p0 p1 where l: "ps = [p0, p1]"
    by (cases ps; cases "tl ps") auto
  from ps(3) have "prediction_date (ps ! 0) = \<lparr>ordinal = 740001, tod = 86399999999\<rparr>"
    "prediction_date (ps ! 1) = \<lparr>ordinal = 740003, tod = 5\<rparr>"
    by (simp_all add: clock_midnight_def)
  then show ?thesis by (simp add: forecast_dates_def ps(1) l)
qed

text \<open>
  The dates of a forecast in general. Suppose the crop has a model, a series and a
  scaler of the width of the feature vector (13), the regressor accepts every row of
  that width, and for every iteration \<open>i\<close> the clock reading plus \<open>i + 1\<close> days is
  inside the calendar. Then \<open>get_price_forecast\<close> returns exactly \<open>days\<close>
  predictions (none when \<open>days\<close> is not positive), and the date of prediction \<open>i\<close>
  (counted from 0) is the clock reading of iteration \<open>i\<close> plus \<open>i + 1\<close> days. So the
  dates are the day offsets 1 to \<open>days\<close> from the call time whenever the clock reads
  the same in all iterations, and two consecutive dates are one day apart plus the
  number of days the clock advanced between the two iterations.
\<close>

theorem forecast_dates_follow_clock:
  assumes "models st c = Some m" and "historical_data st c = Some df"
    and "scalers st c = Some sc"
    and "length (sc_mean sc) = 13" and "length (sc_scale sc) = 13"
    and "\<And>row. length row = 13 \<Longrightarrow> \<exists>v. predict L m row = Inr v"
    and "\<forall>i<nat days. 1 \<le> ordinal (clock i) + (int i + 1) \<and>
                   ordinal (clock i) + (int i + 1) \<le> max_ordinal"
  shows "\<exists>ps. get_price_forecast L st c days clock rnd = Inr ps \<and> length ps = nat days \<and>
     (\<forall>i<nat days. prediction_date (ps ! i)
          = (clock i)\<lparr>ordinal := ordinal (clock i) + (int i + 1)\<rparr>) \<and>
     (\<forall>i. Suc i < nat days \<longrightarrow>
          ordinal (prediction_date (ps ! Suc i)) - ordinal (prediction_date (ps ! i))
            = 1 + (ordinal (clock (Suc i)) - ordinal (clock i)))"
proof -
  from forecast_characterisation[OF assms, of rnd] obtain ps where ps:
    "get_price_forecast L st c days clock rnd = Inr ps" "length ps = nat days"
    "\<forall>i<nat days. prediction_date (ps ! i)
          = (clock i)\<lparr>ordinal := ordinal (clock i) + (int i + 1)\<rparr>" by blast
  have "ordinal (prediction_date (ps ! Suc i)) - ordinal (prediction_date (ps ! i))
            = 1 + (ordinal (clock (Suc i)) - ordinal (clock i))" if "Suc i < nat days" for i
  proof -
    from that have "i < nat days" by simp
    with ps(3) that show ?thesis by simp
  qed
  with ps show ?thesis by blast
qed

theorem forecast_dates_follow_clock_witness:
  "\<exists>ps. get_price_forecast lib0 st_trained ''Rice'' 7 (\<lambda>i. day0) (\<lambda>i. rnd0) = Inr ps \<and>
     length ps = 7 \<and>
     prediction_date (ps ! 0) = \<lparr>ordinal = 740001, tod = 0\<rparr> \<and>
     prediction_date (ps ! 6) = \<lparr>ordinal = 740007, tod = 0\<rparr>"
proof -
  from st_trained_registry obtain m sc where r:
    "models st_trained ''Rice'' = Some m" "scalers st_trained ''Rice'' = Some sc"
    "length (sc_mean sc) = 13" "length (sc_scale sc) = 13"
    "historical_data st_trained ''Rice'' = Some rice_frame" by blast
  have range: "\<forall>i<nat 7. 1 \<le> ordinal ((\<lambda>i. day0) i) + (int i + 1) \<and>
                   ordinal ((\<lambda>i. day0) i) + (int i + 1) \<le> max_ordinal"
    by (simp add: day0_def max_ordinal_def)
  from forecast_dates_follow_clock[OF r(1) r(5) r(2) r(3) r(4) lib0_total range,
      of "\<lambda>i. rnd0"]
  obtain ps where ps:
    "get_price_forecast lib0 st_trained ''Rice'' 7 (\<lambda>i. day0) (\<lambda>i. rnd0) = Inr ps"
    "length ps = nat 7"
    "\<forall>i<nat 7. prediction_date (ps ! i) = day0\<lparr>ordinal := ordinal day0 + (int i + 1)\<rparr>"
    by blast
  from ps(3) have "prediction_date (ps ! 0) = \<lparr>ordinal = 740001, tod = 0\<rparr>"
    "prediction_date (ps ! 6) = \<lparr>ordinal = 740007, tod = 0\<rparr>"
    by (simp_all add: day0_def)
  with ps(1,2) show ?thesis by simp
qed

lemma tail_nth:
  "k \<le> n \<Longrightarrow> n \<le> length xs \<Longrightarrow> 0 < k \<Longrightarrow>
     tail n xs ! (length (tail n xs) - k) = xs ! (length xs - k)"
  by (simp add: tail_def)

lemma length_tail: "length (tail n xs) = min n (length xs)"
  by (simp add: tail_def)

lemma prepare_lags:
  assumes df: "historical_data st c = Some df" and n: "30 \<le> length df"
  shows "\<exists>f. prepare_prediction_features st c d = Inr f \<and> length f = 13 \<and>
     f ! 8 = Fin (price (df ! (length df - 1))) \<and>
     f ! 9 = Fin (price (df ! (length df - 7))) \<and>
     f ! 10 = Fin (price (df ! (length df - 30)))"
proof -
  let ?recent = "map price (tail 30 df)"
  have len: "length ?recent = 30" using n by (simp add: length_tail)
  have r1: "?recent ! (30 - 1) = price (df ! (length df - 1))"
    using n by (simp add: tail_def)
  have r7: "?recent ! (30 - 7) = price (df ! (length df - 7))"
    using n by (simp add: tail_def)
  have r30: "?recent ! (30 - 30) = price (df ! (length df - 30))"
    using n by (simp add: tail_def)
  have ne: "tail 30 df \<noteq> []" using len by auto
  show ?thesis
    using len r1 r7 r30 ne by (simp add: prepare_prediction_features_def df Let_def)
qed




lemma rice_frame_nth:
  "i < 200 \<Longrightarrow> ordinal (date (rice_frame ! i)) = 737425 + int i \<and>
     price (rice_frame ! i) = (if i < 199 then 30 else 33)"
  by (simp add: rice_frame_def daily_frame_def nth_append)


lemma st_trained_rice: "historical_data st_trained ''Rice'' = Some rice_frame"
  using st_trained_registry by blast





lemma column_const:
  "(\<And>row. row \<in> set X \<Longrightarrow> row ! j = Fin a) \<Longrightarrow> column X j = replicate (length X) a"
  by (induction X) (simp_all add: column_def)

lemma mean_replicate: "0 < n \<Longrightarrow> mean (replicate n a) = a"
  by (simp add: mean_def sum_list_replicate)

lemma fit_scaler_const_column:
  assumes fit: "fit_scaler X = Inr sc" and j: "\<And>row. row \<in> set X \<Longrightarrow> j < length row"
    and c: "\<And>row. row \<in> set X \<Longrightarrow> row ! j = Fin a"
  shows "sc_mean sc ! j = a \<and> sc_scale sc ! j = 1"
proof -
  from fit obtain r rs where X: "X = r # rs" by (cases X) (auto simp: fit_scaler_def)
  then have jr: "j < length r" using j by simp
  have col: "column X j = replicate (length X) a" by (rule column_const[OF c])
  have n: "0 < length X" by (simp add: X)
  have m: "mean (column X j) = a" by (simp add: col mean_replicate[OF n])
  have "map (\<lambda>x. (x - a)\<^sup>2) (replicate (length X) a) = replicate (length X) 0" by simp
  then have d: "mean (map (\<lambda>x. (x - mean (column X j))\<^sup>2) (column X j)) = 0"
    by (simp add: m col mean_replicate[OF n])
  from fit have sc: "sc = \<lparr>sc_mean = map (\<lambda>j. mean (column X j)) [0..<length r],
               sc_scale = map (\<lambda>j. let c = column X j;
                                      sd = sqrt (mean (map (\<lambda>x. (x - mean c)\<^sup>2) c))
                                  in if sd = 0 then 1 else sd) [0..<length r]\<rparr>"
    by (simp add: fit_scaler_def X)
  show ?thesis using jr m d by (simp add: sc Let_def)
qed

lemma select_rows_in: "x \<in> set (select_rows xs idx) \<Longrightarrow> x \<in> set xs"
  by (auto simp: select_rows_def)

lemma rice_frame_nth_price:
  "i < 200 \<Longrightarrow> price (rice_frame ! i) = (if i < 199 then 30 else 33)"
  by (simp add: rice_frame_nth)

lemma dropna_rows_index:
  "row \<in> set (map fst (dropna (feature_table df))) \<Longrightarrow>
     \<exists>i. 30 \<le> i \<and> i < length df \<and> row = feature_row df i"
  by (auto simp: dropna_feature_table)

lemma rice_training_rows:
  assumes "row \<in> set (map fst (dropna (feature_table rice_frame)))"
  shows "length row = 13 \<and> row ! 8 = Fin 30"
proof -
  from dropna_rows_index[OF assms] obtain i where
    i: "30 \<le> i" "i < 200" "row = feature_row rice_frame i"
    by (auto simp: length_rice_frame)
  have "map price rice_frame ! (i - 1) = 30"
    using i by (simp add: length_rice_frame rice_frame_nth_price)
  then have "row ! 8 = Fin 30"
    using i by (simp add: feature_row_def Let_def shift_nth length_rice_frame)
  then show ?thesis by (simp add: i(3) length_feature_row)
qed

lemma rice_scaler:
  assumes "prepare_split lib0 (dropna (feature_table rice_frame)) = Inr sd"
  shows "sc_mean (the_scaler sd) ! 8 = 30 \<and> sc_scale (the_scaler sd) ! 8 = 1"
proof -
  note f = prepare_split_fields[OF assms]
  from f have fit: "fit_scaler (X_train sd) = Inr (the_scaler sd)" by blast
  have rows: "length row = 13 \<and> row ! 8 = Fin 30" if "row \<in> set (X_train sd)" for row
  proof -
    from f that have "row \<in> set (select_rows (map fst (dropna (feature_table rice_frame)))
        (fst (split_indices lib0 (length (dropna (feature_table rice_frame))))))" by simp
    then have "row \<in> set (map fst (dropna (feature_table rice_frame)))"
      by (rule select_rows_in)
    then show ?thesis by (rule rice_training_rows)
  qed
  show ?thesis
    by (rule fit_scaler_const_column[OF fit]) (use rows in auto)
qed

lemma predict_price_frame_at:
  "historical_data st' c = historical_data st c \<Longrightarrow> models st' c = models st c \<Longrightarrow>
     scalers st' c = scalers st c \<Longrightarrow>
     predict_price L st' c d0 now rnd = predict_price L st c d0 now rnd"
  by (simp add: predict_price_def prepare_prediction_features_def calculate_confidence_def
      analyze_prediction_factors_def lookup_def cong: if_cong)

lemma transform_nth:
  "transform sc row = Inr r \<Longrightarrow> j < length row \<Longrightarrow>
     r ! j = fdiv_real (fsub_real (row ! j) (sc_mean sc ! j)) (sc_scale sc ! j)"
  by (auto simp: transform_def split: if_splits)

lemma lib0_predict:
  "length row = 13 \<Longrightarrow> predict lib0 m row = Inr (case row ! 8 of Fin x \<Rightarrow> x | _ \<Rightarrow> 0)"
  by (simp add: lib0_def)

lemma st_trained_scaler:
  "\<exists>m sc. models st_trained ''Rice'' = Some m \<and> scalers st_trained ''Rice'' = Some sc \<and>
     length (sc_mean sc) = 13 \<and> length (sc_scale sc) = 13 \<and>
     sc_mean sc ! 8 = 30 \<and> sc_scale sc ! 8 = 1"
proof -
  from rice_split obtain sd where
    sd: "prepare_split lib0 (dropna (feature_table rice_frame)) = Inr sd"
    "length (sc_mean (the_scaler sd)) = 13" "length (sc_scale (the_scaler sd)) = 13" by blast
  from candidates_succeed[of lib0 sd] lib0_total obtain cs where
    cs: "map (evaluate lib0 sd) candidate_names = map Inr cs" by blast
  from train_crop_model_result[OF st0_rice rice_rows sd(1) cs] obtain i where
    "train_crop_model lib0 st0 ''Rice'' =
       st0\<lparr>models := (models st0)(''Rice'' \<mapsto> fst (cs ! i)),
           scalers := (scalers st0)(''Rice'' \<mapsto> the_scaler sd)\<rparr>" by blast
  then show ?thesis using sd(2,3) rice_scaler[OF sd(1)] by (simp add: st_trained_def)
qed

lemma lib0_price:
  assumes m: "models st ''Rice'' = Some m" and sc: "scalers st ''Rice'' = Some sc"
    and l1: "length (sc_mean sc) = 13" and l2: "length (sc_scale sc) = 13"
    and m8: "sc_mean sc ! 8 = 30" and s8: "sc_scale sc ! 8 = 1"
    and df: "historical_data st ''Rice'' = Some df" and n: "30 \<le> length df"
  shows "\<exists>p. predict_price lib0 st ''Rice'' (Some d) now rnd = Inr p \<and>
     predicted_price p = py_round2 (price (df ! (length df - 1)) - 30)"
proof -
  from predict_price_succeeds[OF m df sc l1 l2, of lib0 d now rnd] lib0_total
  obtain p where p: "predict_price lib0 st ''Rice'' (Some d) now rnd = Inr p" by blast
  from p[unfolded predict_price_Inr_iff] m sc obtain f fs v where h:
    "prepare_prediction_features st ''Rice'' d = Inr f" "transform sc f = Inr fs"
    "predict lib0 m fs = Inr v" "predicted_price p = py_round2 v" by auto
  from prepare_lags[OF df n, of d] h(1) have f: "length f = 13"
    "f ! 8 = Fin (price (df ! (length df - 1)))" by auto
  from transform_Inr[of f sc] f(1) l1 l2 h(2) have lfs: "length fs = 13" by auto
  from transform_nth[OF h(2), of 8] f have
    "fs ! 8 = Fin (price (df ! (length df - 1)) - 30)" by (simp add: m8 s8)
  with lib0_predict[OF lfs, of m] h(3) have "v = price (df ! (length df - 1)) - 30" by simp
  with p h(4) show ?thesis by simp
qed

lemma py_round2_small: "py_round2 3 = 3" "py_round2 0 = 0"
  by (simp_all add: py_round2_def)

lemma save_load:
  "load_models fresh (save_models st files p True) p
     = fresh\<lparr>models := models st, scalers := scalers st, label_encoders := label_encoders st\<rparr>"
  by (simp add: load_models_def save_models_def)

lemma fresh_rice_frame_facts:
  "length fresh_rice_frame = 200" "price (fresh_rice_frame ! 199) = 30"
  by (simp_all add: fresh_rice_frame_def daily_frame_def)

text \<open>
  C8. As stated the claim fails. The series are not part of what is saved, and a
  freshly constructed object has generated its own. With the same date, clock reading
  and random draws, the object the models were trained in predicts 3 for rice, and a
  fresh object that has loaded the saved models predicts 0.
\<close>

theorem save_load_changes_prediction_counterexample:
  "map_sum id predicted_price
     (predict_price lib0 st_trained ''Rice'' (Some day0) day0 rnd0) = Inr 3 \<and>
   map_sum id predicted_price
     (predict_price lib0
        (load_models st_fresh (save_models st_trained Map.empty ''models.pkl'' True)
           ''models.pkl'')
        ''Rice'' (Some day0) day0 rnd0) = Inr 0"
proof -
  from st_trained_scaler obtain m sc where r:
    "models st_trained ''Rice'' = Some m" "scalers st_trained ''Rice'' = Some sc"
    "length (sc_mean sc) = 13" "length (sc_scale sc) = 13"
    "sc_mean sc ! 8 = 30" "sc_scale sc ! 8 = 1" by blast
  have n: "30 \<le> length rice_frame" by (simp add: length_rice_frame)
  from lib0_price[OF r st_trained_rice n, of day0 day0 rnd0] obtain p where p:
    "predict_price lib0 st_trained ''Rice'' (Some day0) day0 rnd0 = Inr p"
    "predicted_price p = py_round2 (price (rice_frame ! (length rice_frame - 1)) - 30)"
    by blast
  have one: "map_sum id predicted_price
     (predict_price lib0 st_trained ''Rice'' (Some day0) day0 rnd0) = Inr 3"
    using p by (simp add: length_rice_frame rice_frame_nth py_round2_small)
  let ?st = "load_models st_fresh (save_models st_trained Map.empty ''models.pkl'' True)
           ''models.pkl''"
  have m': "models ?st ''Rice'' = Some m" and sc': "scalers ?st ''Rice'' = Some sc"
    and df': "historical_data ?st ''Rice'' = Some fresh_rice_frame"
    by (simp_all add: save_load r st_fresh_def)
  have n': "30 \<le> length fresh_rice_frame" by (simp add: fresh_rice_frame_facts)
  from lib0_price[OF m' sc' r(3-6) df' n', of day0 day0 rnd0] obtain q where q:
    "predict_price lib0 ?st ''Rice'' (Some day0) day0 rnd0 = Inr q"
    "predicted_price q
       = py_round2 (price (fresh_rice_frame ! (length fresh_rice_frame - 1)) - 30)"
    by blast
  have two: "map_sum id predicted_price
     (predict_price lib0 ?st ''Rice'' (Some day0) day0 rnd0) = Inr 0"
    using q by (simp add: fresh_rice_frame_facts py_round2_small)
  from one two show ?thesis by blast
qed

text \<open>
  C8, amended. When \<^verbatim>\<open>joblib.dump\<close> succeeds, saving and then loading into any
  object replaces that object's models, scalers and label encoders by the saved ones
  and nothing else; its historical series stay its own. For a crop of which the loading
  object holds the same series as the saving one, \<open>predict_price\<close> then returns in the
  loading object exactly what it returns in the saving one, for the same date, clock
  reading and random draws. When \<^verbatim>\<open>joblib.dump\<close> fails nothing is written.
\<close>

theorem save_load_round_trip:
  "load_models fresh (save_models st files p True) p
     = fresh\<lparr>models := models st, scalers := scalers st,
             label_encoders := label_encoders st\<rparr> \<and>
   (historical_data fresh c = historical_data st c \<longrightarrow>
      predict_price L (load_models fresh (save_models st files p True) p) c d0 now rnd
        = predict_price L st c d0 now rnd) \<and>
   save_models st files p False = files"
proof (intro conjI impI)
  show "load_models fresh (save_models st files p True) p
     = fresh\<lparr>models := models st, scalers := scalers st,
             label_encoders := label_encoders st\<rparr>" by (rule save_load)
  show "save_models st files p False = files" by (simp add: save_models_def)
  assume "historical_data fresh c = historical_data st c"
  then show "predict_price L (load_models fresh (save_models st files p True) p) c d0 now rnd
        = predict_price L st c d0 now rnd"
    by (intro predict_price_frame_at) (simp_all add: save_load)
qed

theorem save_load_round_trip_witness:
  "load_models st0 (save_models st_trained Map.empty ''models.pkl'' True) ''models.pkl''
     = st0\<lparr>models := models st_trained, scalers := scalers st_trained,
           label_encoders := label_encoders st_trained\<rparr> \<and>
   predict_price lib0
     (load_models st0 (save_models st_trained Map.empty ''models.pkl'' True) ''models.pkl'')
     ''Rice'' (Some day0) day0 rnd0
     = predict_price lib0 st_trained ''Rice'' (Some day0) day0 rnd0 \<and>
   map_sum id predicted_price
     (predict_price lib0 st_trained ''Rice'' (Some day0) day0 rnd0) = Inr 3"
proof -
  have h: "historical_data st0 ''Rice'' = historical_data st_trained ''Rice''"
    by (simp add: st_trained_def)
  from st_trained_scaler obtain m sc where r:
    "models st_trained ''Rice'' = Some m" "scalers st_trained ''Rice'' = Some sc"
    "length (sc_mean sc) = 13" "length (sc_scale sc) = 13"
    "sc_mean sc ! 8 = 30" "sc_scale sc ! 8 = 1" by blast
  have n: "30 \<le> length rice_frame" by (simp add: length_rice_frame)
  from lib0_price[OF r st_trained_rice n, of day0 day0 rnd0] obtain p where p:
    "predict_price lib0 st_trained ''Rice'' (Some day0) day0 rnd0 = Inr p"
    "predicted_price p = py_round2 (price (rice_frame ! (length rice_frame - 1)) - 30)"
    by blast
  have three: "map_sum id predicted_price
     (predict_price lib0 st_trained ''Rice'' (Some day0) day0 rnd0) = Inr 3"
    using p by (simp add: length_rice_frame rice_frame_nth py_round2_small)
  from save_load_round_trip[of st0 st_trained Map.empty "''models.pkl''" "''Rice''" lib0
      "Some day0" day0 rnd0] h three
  show ?thesis by blast
qed


end
